theory Spec2Isabelle
  imports Main "HOL-Library.Char_ord" "HOL-Library.List_Lexorder" "HOL-Library.Multiset"
begin

section \<open>JavaScript values and strings\<close>

text \<open>
  Request bodies and query strings carry untyped JavaScript values. A string is a list of
  characters, one \<^typ>\<open>char\<close> for each code unit below 256; \<open>length\<close> is the
  \<^verbatim>\<open>.length\<close> of the source. Numbers are integers: the code modelled reads only
  their type and their truthiness. Objects whose properties the code reads by name
  (\<^verbatim>\<open>req.body\<close>, \<^verbatim>\<open>req.query\<close>) are functions from property names to values, an
  absent property reading as \<open>JUndefined\<close>.
\<close>

datatype jsval =
    JUndefined
  | JNull
  | JBool bool
  | JNum int
  | JStr string
  | JArr "jsval list"
  | JObj "(string \<times> jsval) list"

type_synonym jsobj = "string \<Rightarrow> jsval"

definition emptyObj :: jsobj where
  "emptyObj = (\<lambda>_. JUndefined)"

text \<open>\<^verbatim>\<open>typeof v\<close>.\<close>

fun typeof :: "jsval \<Rightarrow> string" where
  "typeof JUndefined = ''undefined''"
| "typeof JNull = ''object''"
| "typeof (JBool _) = ''boolean''"
| "typeof (JNum _) = ''number''"
| "typeof (JStr _) = ''string''"
| "typeof (JArr _) = ''object''"
| "typeof (JObj _) = ''object''"

text \<open>Truthiness: what \<^verbatim>\<open>if (v)\<close>, \<^verbatim>\<open>!v\<close> and \<^verbatim>\<open>v || d\<close> test.\<close>

fun truthy :: "jsval \<Rightarrow> bool" where
  "truthy JUndefined = False"
| "truthy JNull = False"
| "truthy (JBool b) = b"
| "truthy (JNum n) = (n \<noteq> 0)"
| "truthy (JStr s) = (s \<noteq> [])"
| "truthy (JArr _) = True"
| "truthy (JObj _) = True"

text \<open>The characters of a string value; read only behind a \<open>typeof\<close> test.\<close>

fun str :: "jsval \<Rightarrow> string" where
  "str (JStr s) = s"
| "str _ = []"

text \<open>
  \<^verbatim>\<open>String.prototype.trim\<close>: the white space and line terminators of ECMAScript
  among the code units below 256 are TAB, LF, VT, FF, CR, SP and NBSP.
\<close>

definition isWhiteSpace :: "char \<Rightarrow> bool" where
  "isWhiteSpace c \<longleftrightarrow> c \<in> set [CHR 0x09, CHR 0x0A, CHR 0x0B, CHR 0x0C, CHR 0x0D, CHR 0x20, CHR 0xA0]"

definition trim :: "string \<Rightarrow> string" where
  "trim s = rev (dropWhile isWhiteSpace (rev (dropWhile isWhiteSpace s)))"

text \<open>\<^verbatim>\<open>xs.join(sep)\<close> on an array of strings.\<close>

fun join :: "string \<Rightarrow> string list \<Rightarrow> string" where
  "join sep [] = []"
| "join sep [x] = x"
| "join sep (x # y # ys) = x @ sep @ join sep (y # ys)"

text \<open>\<^verbatim>\<open>xs.includes(v)\<close> on an array of strings: only a string value can be found.\<close>

fun array_includes :: "string list \<Rightarrow> jsval \<Rightarrow> bool" where
  "array_includes xs (JStr s) = (s \<in> set xs)"
| "array_includes xs _ = False"

text \<open>The decimal text of a non-negative integer, as a template literal renders it.\<close>

definition digitChar :: "nat \<Rightarrow> char" where
  "digitChar d = ''0123456789'' ! d"

function digits10 :: "nat \<Rightarrow> string" where
  "digits10 n = (if n < 10 then [digitChar n] else digits10 (n div 10) @ [digitChar (n mod 10)])"
  by pat_completeness auto
termination
  by (relation "measure (\<lambda>n. n)") auto

declare digits10.simps [simp del]

section \<open>Validation layer\<close>

definition VALID_PRIORITIES :: "string list" where
  "VALID_PRIORITIES = [''low'', ''medium'', ''high'']"

definition VALID_STATUSES :: "string list" where
  "VALID_STATUSES = [''pending'', ''completed'']"

text \<open>\<^verbatim>\<open>sanitizeString\<close>: non-strings pass through; strings are trimmed, then every
  \<open><\<close> and \<open>>\<close> is removed.\<close>

fun sanitizeString :: "jsval \<Rightarrow> jsval" where
  "sanitizeString (JStr s) = JStr (filter (\<lambda>c. c \<noteq> CHR ''<'' \<and> c \<noteq> CHR ''>'') (trim s))"
| "sanitizeString v = v"

text \<open>
  A middleware either answers the request itself (\<^verbatim>\<open>res.status(c).json(...)\<close>) or
  calls \<^verbatim>\<open>next()\<close> with the request as it has left it. The error envelope is
  \<^verbatim>\<open>{success: false, error, message, details}\<close>.
\<close>

record errorBody =
  statusCode :: nat
  errorLabel :: string
  message :: string
  details :: "string list"

datatype 'a middleware = Respond errorBody | Next 'a

definition validationError :: "string \<Rightarrow> string list \<Rightarrow> errorBody" where
  "validationError msg errors =
     \<lparr>statusCode = 400, errorLabel = ''Validation Error'', message = msg, details = errors\<rparr>"

definition titleErrors :: "jsval \<Rightarrow> string list" where
  "titleErrors title =
     (if \<not> truthy title \<or> typeof title \<noteq> ''string'' \<or> length (trim (str title)) = 0
      then [''Title is required and must be a non-empty string'']
      else if length (trim (str title)) > 200
      then [''Title must not exceed 200 characters'']
      else [])"

definition descriptionErrors :: "jsval \<Rightarrow> string list" where
  "descriptionErrors description =
     (if description \<noteq> JUndefined
      then (if typeof description \<noteq> ''string''
            then [''Description must be a string'']
            else if length (str description) > 1000
            then [''Description must not exceed 1000 characters'']
            else [])
      else [])"

definition priorityErrors :: "jsval \<Rightarrow> string list" where
  "priorityErrors priority =
     (if priority \<noteq> JUndefined
      then (if \<not> array_includes VALID_PRIORITIES priority
            then [''Priority must be one of: '' @ join '', '' VALID_PRIORITIES]
            else [])
      else [])"

text \<open>The \<open>errors\<close> array of \<^verbatim>\<open>validateCreateTask\<close> after its three checks, in push order.\<close>

definition createTaskErrors :: "jsobj \<Rightarrow> string list" where
  "createTaskErrors body =
     titleErrors (body ''title'') @ descriptionErrors (body ''description'')
       @ priorityErrors (body ''priority'')"

definition validateCreateTask :: "jsobj \<Rightarrow> jsobj middleware" where
  "validateCreateTask body =
     (let title = body ''title'';
          description = body ''description'';
          errors = createTaskErrors body
      in if length errors > 0
         then Respond (validationError ''Invalid input data'' errors)
         else
           (let body1 = body(''title'' := sanitizeString title);
                body2 = (if truthy description
                         then body1(''description'' := sanitizeString description)
                         else body1)
            in Next body2))"

text \<open>
  \<^verbatim>\<open>isValidId\<close> tests \<^verbatim>\<open>/^task_\d+_[a-z0-9]+$/\<close>. After the literal prefix the digits are
  matched greedily; the character after them must be the underscore, which is no digit, so
  no shorter digit run can match; the rest up to the end of the string must be a non-empty
  run of \<open>a-z0-9\<close>.
\<close>

definition isDigit :: "char \<Rightarrow> bool" where
  "isDigit c \<longleftrightarrow> CHR ''0'' \<le> c \<and> c \<le> CHR ''9''"

definition isLowerAlnum :: "char \<Rightarrow> bool" where
  "isLowerAlnum c \<longleftrightarrow> isDigit c \<or> (CHR ''a'' \<le> c \<and> c \<le> CHR ''z'')"

definition matchesIdPattern :: "string \<Rightarrow> bool" where
  "matchesIdPattern s \<longleftrightarrow>
     take 5 s = ''task_'' \<and>
     (let r = drop 5 s; ds = takeWhile isDigit r
      in ds \<noteq> [] \<and>
         (case dropWhile isDigit r of
            [] \<Rightarrow> False
          | c # suffix \<Rightarrow> c = CHR ''_'' \<and> suffix \<noteq> [] \<and> list_all isLowerAlnum suffix))"

definition isValidId :: "jsval \<Rightarrow> bool" where
  "isValidId v \<longleftrightarrow> typeof v = ''string'' \<and> length (str v) > 0 \<and> matchesIdPattern (str v)"

definition validSortFields :: "string list" where
  "validSortFields = [''title'', ''priority'', ''status'', ''createdAt'']"

text \<open>The \<open>errors\<close> array of \<^verbatim>\<open>validateQueryParams\<close>, in push order.\<close>

definition queryErrors :: "jsobj \<Rightarrow> string list" where
  "queryErrors query =
     (let status = query ''status''; priority = query ''priority''; sortBy = query ''sortBy''
      in (if truthy status \<and> \<not> array_includes VALID_STATUSES status
          then [''Status filter must be one of: '' @ join '', '' VALID_STATUSES] else [])
       @ (if truthy priority \<and> \<not> array_includes VALID_PRIORITIES priority
          then [''Priority filter must be one of: '' @ join '', '' VALID_PRIORITIES] else [])
       @ (if truthy sortBy \<and> \<not> array_includes validSortFields sortBy
          then [''Sort field must be one of: '' @ join '', '' validSortFields] else []))"

definition validateQueryParams :: "jsobj \<Rightarrow> jsobj middleware" where
  "validateQueryParams query =
     (let errors = queryErrors query
      in if length errors > 0
         then Respond (validationError ''Invalid query parameters'' errors)
         else Next query)"

section \<open>The tasks table and the statements run on it\<close>

text \<open>
  The objects handed to the storage layer are typed at strings: a property is a string or
  absent. The validators let nothing else through (see \<open>decodeFilters_total\<close> and
  \<open>decodeTaskData_total\<close> below). The field \<open>id\<close> of a task is written \<open>id'\<close>, \<open>id\<close>
  being the identity function of HOL.
\<close>

record filters =
  status :: "string option"
  priority :: "string option"
  sortBy :: "string option"

record taskData =
  title :: string
  description :: "string option"
  priority :: "string option"

record task =
  id' :: string
  title :: string
  description :: string
  priority :: string
  status :: string
  createdAt :: string

text \<open>
  \<open>TaskNotFound\<close> is the \<^verbatim>\<open>Error("Task not found")\<close> the storage layer throws itself,
  \<open>SqliteError\<close> an error the database reports for a statement it has run (a violated
  constraint). \<open>Unsupported\<close> marks a statement text or a parameter list outside the forms
  described below: the theory says nothing about what the database does with those.
\<close>

datatype storageError = TaskNotFound | SqliteError | Unsupported

text \<open>
  The database engine is not part of the repository. It is described here for the
  statement forms the storage layer issues against the table of \<^verbatim>\<open>ensureInitialized\<close>
  (six \<open>TEXT\<close> columns, primary key \<open>id\<close>, \<open>CHECK\<close> constraints on \<open>priority\<close> and
  \<open>status\<close>), read from the statement text:
  \<^item> \<^verbatim>\<open>SELECT * FROM tasks [WHERE c = ? {AND c = ?}] [ORDER BY c ASC|DESC]\<close>
  \<^item> \<^verbatim>\<open>INSERT INTO tasks (id, title, description, priority, status, createdAt) VALUES (?, ?, ?, ?, ?, ?)\<close>
  \<^item> \<^verbatim>\<open>UPDATE tasks SET status = ? WHERE c = ? {AND c = ?}\<close>
  \<^item> \<^verbatim>\<open>DELETE FROM tasks WHERE c = ? {AND c = ?}\<close>

  The text is cut into tokens at white space, with parentheses and commas as tokens of
  their own.
\<close>

definition isSqlSpace :: "char \<Rightarrow> bool" where
  "isSqlSpace c \<longleftrightarrow> c \<in> set [CHR 0x20, CHR 0x0A, CHR 0x09, CHR 0x0D]"

definition isSqlPunct :: "char \<Rightarrow> bool" where
  "isSqlPunct c \<longleftrightarrow> c \<in> set [CHR ''('', CHR '')'', CHR '','']"

fun lexer :: "string \<Rightarrow> string \<Rightarrow> string list" where
  "lexer w [] = (if w = [] then [] else [w])"
| "lexer w (c # cs) =
     (if isSqlSpace c then (if w = [] then lexer [] cs else w # lexer [] cs)
      else if isSqlPunct c then (if w = [] then [c] # lexer [] cs else w # [c] # lexer [] cs)
      else lexer (w @ [c]) cs)"

datatype direction = ASC | DESC

datatype statement =
    SelectAll "string list" "(string \<times> direction) option"
  | InsertTask
  | UpdateStatus "string list"
  | DeleteFrom "string list"

fun parseConds :: "string list \<Rightarrow> (string list \<times> string list) option" where
  "parseConds (c # e # q # ts) =
     (if e = ''='' \<and> q = ''?'' then
        (case ts of
           [] \<Rightarrow> Some ([c], [])
         | a # ts' \<Rightarrow>
             if a = ''AND''
             then (case parseConds ts' of None \<Rightarrow> None | Some (cs, r) \<Rightarrow> Some (c # cs, r))
             else Some ([c], ts))
      else None)"
| "parseConds _ = None"

definition parseWhere :: "string list \<Rightarrow> (string list \<times> string list) option" where
  "parseWhere ts =
     (case ts of
        [] \<Rightarrow> Some ([], [])
      | t # r \<Rightarrow> if t = ''WHERE'' then parseConds r else Some ([], ts))"

definition parseOrder :: "string list \<Rightarrow> (string \<times> direction) option option" where
  "parseOrder ts =
     (case ts of
        [] \<Rightarrow> Some None
      | [k1, k2, c, d] \<Rightarrow>
          if k1 = ''ORDER'' \<and> k2 = ''BY'' \<and> d = ''ASC'' then Some (Some (c, ASC))
          else if k1 = ''ORDER'' \<and> k2 = ''BY'' \<and> d = ''DESC'' then Some (Some (c, DESC))
          else None
      | _ \<Rightarrow> None)"

definition insertTokens :: "string list" where
  "insertTokens =
     [''INSERT'', ''INTO'', ''tasks'',
      ''('', ''id'', '','', ''title'', '','', ''description'', '','', ''priority'', '','',
      ''status'', '','', ''createdAt'', '')'',
      ''VALUES'', ''('', ''?'', '','', ''?'', '','', ''?'', '','', ''?'', '','', ''?'', '','', ''?'', '')'']"

definition parse :: "string list \<Rightarrow> statement option" where
  "parse ts =
     (if take 4 ts = [''SELECT'', ''*'', ''FROM'', ''tasks''] then
        (case parseWhere (drop 4 ts) of
           None \<Rightarrow> None
         | Some (cs, r) \<Rightarrow>
             (case parseOrder r of None \<Rightarrow> None | Some ob \<Rightarrow> Some (SelectAll cs ob)))
      else if ts = insertTokens then Some InsertTask
      else if take 6 ts = [''UPDATE'', ''tasks'', ''SET'', ''status'', ''='', ''?''] then
        (case parseWhere (drop 6 ts) of
           Some (cs, []) \<Rightarrow> Some (UpdateStatus cs)
         | _ \<Rightarrow> None)
      else if take 3 ts = [''DELETE'', ''FROM'', ''tasks''] then
        (case parseWhere (drop 3 ts) of
           Some (cs, []) \<Rightarrow> Some (DeleteFrom cs)
         | _ \<Rightarrow> None)
      else None)"

definition column :: "string \<Rightarrow> (task \<Rightarrow> string) option" where
  "column c =
     (if c = ''id'' then Some id'
      else if c = ''title'' then Some task.title
      else if c = ''description'' then Some task.description
      else if c = ''priority'' then Some task.priority
      else if c = ''status'' then Some task.status
      else if c = ''createdAt'' then Some createdAt
      else None)"

text \<open>Each \<open>c = ?\<close> takes the next bound parameter; the counts must agree.\<close>

fun bindConds :: "string list \<Rightarrow> string list \<Rightarrow> ((task \<Rightarrow> string) \<times> string) list option" where
  "bindConds [] [] = Some []"
| "bindConds (c # cs) (p # ps) =
     (case column c of
        None \<Rightarrow> None
      | Some f \<Rightarrow> (case bindConds cs ps of None \<Rightarrow> None | Some bs \<Rightarrow> Some ((f, p) # bs)))"
| "bindConds _ _ = None"

definition satisfies :: "((task \<Rightarrow> string) \<times> string) list \<Rightarrow> task \<Rightarrow> bool" where
  "satisfies bs t = list_all (\<lambda>(f, v). f t = v) bs"

text \<open>
  \<open>TEXT\<close> values compare bytewise, which is the lexicographic order of the strings.
  Rows with equal keys stay in table order, ascending and descending alike.
\<close>

definition orderRows :: "(string \<times> direction) option \<Rightarrow> task list \<Rightarrow> task list option" where
  "orderRows ob ts =
     (case ob of
        None \<Rightarrow> Some ts
      | Some (c, d) \<Rightarrow>
          (case column c of
             None \<Rightarrow> None
           | Some f \<Rightarrow>
               Some (case d of ASC \<Rightarrow> sort_key f ts | DESC \<Rightarrow> rev (sort_key f (rev ts)))))"

definition runSelect :: "string \<Rightarrow> string list \<Rightarrow> task list \<Rightarrow> storageError + task list" where
  "runSelect sql params tbl =
     (case parse (lexer [] sql) of
        Some (SelectAll cs ob) \<Rightarrow>
          (case bindConds cs params of
             None \<Rightarrow> Inl Unsupported
           | Some bs \<Rightarrow>
               (case orderRows ob (filter (satisfies bs) tbl) of
                  None \<Rightarrow> Inl Unsupported
                | Some r \<Rightarrow> Inr r))
      | _ \<Rightarrow> Inl Unsupported)"

text \<open>A writing statement gives the number of rows changed and the new table.\<close>

definition runWrite :: "string \<Rightarrow> string list \<Rightarrow> task list \<Rightarrow> storageError + (nat \<times> task list)" where
  "runWrite sql params tbl =
     (case parse (lexer [] sql) of
        Some InsertTask \<Rightarrow>
          (case params of
             [i, t, d, p, s, c] \<Rightarrow>
               if i \<in> set (map id' tbl) \<or> p \<notin> set [''low'', ''medium'', ''high'']
                  \<or> s \<notin> set [''pending'', ''completed'']
               then Inl SqliteError
               else Inr (1, tbl @ [\<lparr>id' = i, title = t, description = d, priority = p,
                                    status = s, createdAt = c\<rparr>])
           | _ \<Rightarrow> Inl Unsupported)
      | Some (UpdateStatus cs) \<Rightarrow>
          (case params of
             [] \<Rightarrow> Inl Unsupported
           | v # ps \<Rightarrow>
               (case bindConds cs ps of
                  None \<Rightarrow> Inl Unsupported
                | Some bs \<Rightarrow>
                    if filter (satisfies bs) tbl \<noteq> [] \<and> v \<notin> set [''pending'', ''completed'']
                    then Inl SqliteError
                    else Inr (length (filter (satisfies bs) tbl),
                              map (\<lambda>t. if satisfies bs t then t\<lparr>status := v\<rparr> else t) tbl)))
      | Some (DeleteFrom cs) \<Rightarrow>
          (case bindConds cs params of
             None \<Rightarrow> Inl Unsupported
           | Some bs \<Rightarrow>
               Inr (length (filter (satisfies bs) tbl), filter (\<lambda>t. \<not> satisfies bs t) tbl))
      | _ \<Rightarrow> Inl Unsupported)"

section \<open>Storage layer\<close>

text \<open>
  \<^verbatim>\<open>SqliteStorage\<close>: the table of the database file and the \<open>isInitialized\<close> flag. The
  model covers the runs in which the file opens; \<^verbatim>\<open>CREATE TABLE IF NOT EXISTS\<close> leaves
  the rows of an existing table as they are. An operation returns its outcome (a thrown
  error to the left) together with the storage after it.
\<close>

record storage =
  isInitialized :: bool
  db :: "task list"

definition ensureInitialized :: "storage \<Rightarrow> storage" where
  "ensureInitialized s = (if isInitialized s then s else s\<lparr>isInitialized := True\<rparr>)"

definition runQuery :: "string \<Rightarrow> string list \<Rightarrow> storage \<Rightarrow> (storageError + nat) \<times> storage" where
  "runQuery sql params s =
     (let s1 = ensureInitialized s
      in case runWrite sql params (db s1) of
           Inl e \<Rightarrow> (Inl e, s1)
         | Inr (changes, tbl) \<Rightarrow> (Inr changes, s1\<lparr>db := tbl\<rparr>))"

text \<open>\<^verbatim>\<open>db.get\<close> resolves to the first row of the result, or to \<^verbatim>\<open>undefined\<close>.\<close>

definition getQuery :: "string \<Rightarrow> string list \<Rightarrow> storage \<Rightarrow> (storageError + task option) \<times> storage" where
  "getQuery sql params s =
     (let s1 = ensureInitialized s
      in case runSelect sql params (db s1) of
           Inl e \<Rightarrow> (Inl e, s1)
         | Inr [] \<Rightarrow> (Inr None, s1)
         | Inr (row # _) \<Rightarrow> (Inr (Some row), s1))"

definition allQuery :: "string \<Rightarrow> string list \<Rightarrow> storage \<Rightarrow> (storageError + task list) \<times> storage" where
  "allQuery sql params s =
     (let s1 = ensureInitialized s
      in case runSelect sql params (db s1) of
           Inl e \<Rightarrow> (Inl e, s1)
         | Inr rs \<Rightarrow> (Inr rs, s1))"

text \<open>\<^verbatim>\<open>s.substr(start, len)\<close> for non-negative arguments.\<close>

definition substr :: "nat \<Rightarrow> nat \<Rightarrow> string \<Rightarrow> string" where
  "substr start len s = take len (drop start s)"

text \<open>
  \<^verbatim>\<open>generateId\<close> reads the clock and the random generator. Both reads are arguments:
  \<open>now\<close> is the value of \<^verbatim>\<open>Date.now()\<close> and \<open>rnd\<close> the text
  \<^verbatim>\<open>Math.random().toString(36)\<close>, for instance \<open>''0.i''\<close> for the random value one half
  and \<open>''0''\<close> for zero.
\<close>

definition generateId :: "nat \<Rightarrow> string \<Rightarrow> string" where
  "generateId now rnd = ''task_'' @ digits10 now @ ''_'' @ substr 2 9 rnd"

text \<open>
  Truthiness of an optional string property (present and not the empty string), and
  \<^verbatim>\<open>v || d\<close> on such a property.
\<close>

fun present :: "string option \<Rightarrow> bool" where
  "present None = False"
| "present (Some v) = (v \<noteq> [])"

fun orElse :: "string option \<Rightarrow> string \<Rightarrow> string" where
  "orElse None d = d"
| "orElse (Some v) d = (if v \<noteq> [] then v else d)"

definition buildWhereClause :: "filters \<Rightarrow> string \<times> string list" where
  "buildWhereClause f =
     (let conditions = []; params = [];
          (conditions, params) =
            (case filters.status f of
               Some v \<Rightarrow> if v \<noteq> [] then (conditions @ [''status = ?''], params @ [v])
                         else (conditions, params)
             | None \<Rightarrow> (conditions, params));
          (conditions, params) =
            (case filters.priority f of
               Some v \<Rightarrow> if v \<noteq> [] then (conditions @ [''priority = ?''], params @ [v])
                         else (conditions, params)
             | None \<Rightarrow> (conditions, params))
      in (if length conditions > 0 then ''WHERE '' @ join '' AND '' conditions else [],
          params))"

definition buildOrderByClause :: "string option \<Rightarrow> string" where
  "buildOrderByClause sortField =
     (case sortField of
        None \<Rightarrow> []
      | Some c \<Rightarrow>
          if c = [] then []
          else if c = ''createdAt'' then ''ORDER BY createdAt DESC''
          else ''ORDER BY '' @ c @ '' ASC'')"

text \<open>The statement text and the bound parameters of \<^verbatim>\<open>getAllTasks\<close>.\<close>

definition getAllTasksQuery :: "filters \<Rightarrow> string \<times> string list" where
  "getAllTasksQuery f =
     (let (whereClause, params) = buildWhereClause f;
          orderByClause = buildOrderByClause (sortBy f);
          sql = ''SELECT * FROM tasks '' @ whereClause @ '' '' @ orderByClause
      in (sql, params))"

definition getAllTasks :: "filters \<Rightarrow> storage \<Rightarrow> (storageError + task list) \<times> storage" where
  "getAllTasks f s = (let (sql, params) = getAllTasksQuery f in allQuery sql params s)"

definition insertSql :: string where
  "insertSql =
     ''\<newline>      INSERT INTO tasks (id, title, description, priority, status, createdAt)\<newline>      VALUES (?, ?, ?, ?, ?, ?)\<newline>    ''"

definition selectByIdSql :: string where
  "selectByIdSql = ''SELECT * FROM tasks WHERE id = ?''"

definition updateSql :: string where
  "updateSql = ''UPDATE tasks SET status = ? WHERE id = ?''"

definition deleteSql :: string where
  "deleteSql = ''DELETE FROM tasks WHERE id = ?''"

text \<open>
  The statement text and the parameter array of the other four operations: the constants
  \<open>sql\<close> and \<open>params\<close> of each method.
\<close>

definition createTaskQuery :: "task \<Rightarrow> string \<times> string list" where
  "createTaskQuery newTask =
     (insertSql,
      [id' newTask, title newTask, description newTask, priority newTask,
       status newTask, createdAt newTask])"

definition getTaskByIdQuery :: "string \<Rightarrow> string \<times> string list" where
  "getTaskByIdQuery taskId = (selectByIdSql, [taskId])"

definition updateTaskStatusQuery :: "string \<Rightarrow> string \<Rightarrow> string \<times> string list" where
  "updateTaskStatusQuery newStatus taskId = (updateSql, [newStatus, taskId])"

definition deleteTaskQuery :: "string \<Rightarrow> string \<times> string list" where
  "deleteTaskQuery taskId = (deleteSql, [taskId])"

text \<open>
  \<^verbatim>\<open>createTask\<close>; \<open>isoNow\<close> is the text of \<^verbatim>\<open>new Date().toISOString()\<close>, read after the
  identifier has been generated.
\<close>

definition createTask ::
  "nat \<Rightarrow> string \<Rightarrow> string \<Rightarrow> taskData \<Rightarrow> storage \<Rightarrow> (storageError + task) \<times> storage" where
  "createTask now rnd isoNow d s =
     (let newTask =
            \<lparr>id' = generateId now rnd,
             title = taskData.title d,
             description = orElse (taskData.description d) [],
             priority = orElse (taskData.priority d) ''medium'',
             status = ''pending'',
             createdAt = isoNow\<rparr>;
          (sql, params) = createTaskQuery newTask
      in case runQuery sql params s of
           (Inl e, s1) \<Rightarrow> (Inl e, s1)
         | (Inr _, s1) \<Rightarrow> (Inr newTask, s1))"

definition getTaskById :: "string \<Rightarrow> storage \<Rightarrow> (storageError + task) \<times> storage" where
  "getTaskById taskId s =
     (let (sql, params) = getTaskByIdQuery taskId
      in case getQuery sql params s of
           (Inl e, s1) \<Rightarrow> (Inl e, s1)
         | (Inr None, s1) \<Rightarrow> (Inl TaskNotFound, s1)
         | (Inr (Some t), s1) \<Rightarrow> (Inr t, s1))"

definition updateTaskStatus :: "string \<Rightarrow> bool \<Rightarrow> storage \<Rightarrow> (storageError + task) \<times> storage" where
  "updateTaskStatus taskId st s =
     (let newStatus = (if st then ''completed'' else ''pending'');
          (sql, params) = updateTaskStatusQuery newStatus taskId
      in case runQuery sql params s of
           (Inl e, s1) \<Rightarrow> (Inl e, s1)
         | (Inr changes, s1) \<Rightarrow>
             if changes = 0 then (Inl TaskNotFound, s1) else getTaskById taskId s1)"

definition deleteTask :: "string \<Rightarrow> storage \<Rightarrow> (storageError + task) \<times> storage" where
  "deleteTask taskId s =
     (case getTaskById taskId s of
        (Inl e, s1) \<Rightarrow> (Inl e, s1)
      | (Inr t, s1) \<Rightarrow>
          (let (sql, params) = deleteTaskQuery taskId
           in case runQuery sql params s1 of
                (Inl e, s2) \<Rightarrow> (Inl e, s2)
              | (Inr _, s2) \<Rightarrow> (Inr t, s2)))"

section \<open>Controllers and routes\<close>

text \<open>
  What a route answers: the error envelope, the success envelope around one task
  (status, data, message) or around a list (status, data, message, count), or an error
  passed on with \<^verbatim>\<open>next(error)\<close>.
\<close>

datatype reply =
    Failed errorBody
  | TaskReply nat task string
  | ListReply nat "task list" string nat
  | Forwarded storageError

text \<open>
  The controller copies a query parameter into the filter object when it is truthy. The
  storage model takes strings only, so a truthy value of another type has no image
  (\<open>None\<close>); \<open>decodeFilters_total\<close> shows that no such value passes the validator.
\<close>

definition filterField :: "jsval \<Rightarrow> string option option" where
  "filterField v =
     (if truthy v then (case v of JStr x \<Rightarrow> Some (Some x) | _ \<Rightarrow> None) else Some None)"

definition decodeFilters :: "jsobj \<Rightarrow> filters option" where
  "decodeFilters query =
     (case (filterField (query ''status''), filterField (query ''priority''),
            filterField (query ''sortBy'')) of
        (Some st, Some pr, Some sb) \<Rightarrow>
          Some \<lparr>filters.status = st, filters.priority = pr, sortBy = sb\<rparr>
      | _ \<Rightarrow> None)"

definition controller_getAllTasks :: "jsobj \<Rightarrow> storage \<Rightarrow> reply \<times> storage" where
  "controller_getAllTasks query s =
     (case decodeFilters query of
        None \<Rightarrow> (Forwarded Unsupported, s)
      | Some f \<Rightarrow>
          (case getAllTasks f s of
             (Inl e, s1) \<Rightarrow> (Forwarded e, s1)
           | (Inr tasks, s1) \<Rightarrow>
               (ListReply 200 tasks (''Retrieved '' @ digits10 (length tasks) @ '' task(s)'')
                  (length tasks), s1)))"

text \<open>\<^verbatim>\<open>router.get("/", validateQueryParams, getAllTasks)\<close>.\<close>

definition listRoute :: "jsobj \<Rightarrow> storage \<Rightarrow> reply \<times> storage" where
  "listRoute query s =
     (case validateQueryParams query of
        Respond e \<Rightarrow> (Failed e, s)
      | Next q \<Rightarrow> controller_getAllTasks q s)"

text \<open>
  The controller passes \<open>title\<close>, \<open>description\<close> and \<open>priority\<close> of the body on to the
  storage layer. Typed at strings: the title is a string, the other two are strings or
  absent (\<open>decodeTaskData_total\<close>).
\<close>

definition optionalText :: "jsval \<Rightarrow> string option option" where
  "optionalText v =
     (case v of JUndefined \<Rightarrow> Some None | JStr x \<Rightarrow> Some (Some x) | _ \<Rightarrow> None)"

definition decodeTaskData :: "jsobj \<Rightarrow> taskData option" where
  "decodeTaskData body =
     (case (body ''title'', optionalText (body ''description''),
            optionalText (body ''priority'')) of
        (JStr t, Some d, Some p) \<Rightarrow>
          Some \<lparr>taskData.title = t, taskData.description = d, taskData.priority = p\<rparr>
      | _ \<Rightarrow> None)"

definition controller_createTask ::
  "nat \<Rightarrow> string \<Rightarrow> string \<Rightarrow> jsobj \<Rightarrow> storage \<Rightarrow> reply \<times> storage" where
  "controller_createTask now rnd isoNow body s =
     (case decodeTaskData body of
        None \<Rightarrow> (Forwarded Unsupported, s)
      | Some d \<Rightarrow>
          (case createTask now rnd isoNow d s of
             (Inl e, s1) \<Rightarrow> (Forwarded e, s1)
           | (Inr newTask, s1) \<Rightarrow> (TaskReply 201 newTask ''Task created successfully'', s1)))"

text \<open>\<^verbatim>\<open>router.post("/", validateCreateTask, createTask)\<close>.\<close>

definition createRoute :: "nat \<Rightarrow> string \<Rightarrow> string \<Rightarrow> jsobj \<Rightarrow> storage \<Rightarrow> reply \<times> storage" where
  "createRoute now rnd isoNow body s =
     (case validateCreateTask body of
        Respond e \<Rightarrow> (Failed e, s)
      | Next b \<Rightarrow> controller_createTask now rnd isoNow b s)"

section \<open>Notions of the specification\<close>

text \<open>
  The rules of create validation as the specification words them: title required and
  non-empty after trimming; title at most 200 characters after trimming; description a
  string if present; description at most 1000 characters; priority one of the three
  values if present. \<open>violatedRules\<close> lists the rules a body breaks, \<open>ruleMessage\<close> the
  text that reports each.
\<close>

datatype createRule = TitleRequired | TitleLength | DescriptionType | DescriptionLength | PriorityEnum

fun violates :: "jsobj \<Rightarrow> createRule \<Rightarrow> bool" where
  "violates body TitleRequired = (case body ''title'' of JStr t \<Rightarrow> trim t = [] | _ \<Rightarrow> True)"
| "violates body TitleLength = (case body ''title'' of JStr t \<Rightarrow> length (trim t) > 200 | _ \<Rightarrow> False)"
| "violates body DescriptionType =
     (case body ''description'' of JUndefined \<Rightarrow> False | JStr _ \<Rightarrow> False | _ \<Rightarrow> True)"
| "violates body DescriptionLength =
     (case body ''description'' of JStr d \<Rightarrow> length d > 1000 | _ \<Rightarrow> False)"
| "violates body PriorityEnum =
     (case body ''priority'' of
        JUndefined \<Rightarrow> False
      | JStr p \<Rightarrow> p \<notin> set [''low'', ''medium'', ''high'']
      | _ \<Rightarrow> True)"

fun ruleMessage :: "createRule \<Rightarrow> string" where
  "ruleMessage TitleRequired = ''Title is required and must be a non-empty string''"
| "ruleMessage TitleLength = ''Title must not exceed 200 characters''"
| "ruleMessage DescriptionType = ''Description must be a string''"
| "ruleMessage DescriptionLength = ''Description must not exceed 1000 characters''"
| "ruleMessage PriorityEnum = ''Priority must be one of: low, medium, high''"

definition allRules :: "createRule list" where
  "allRules = [TitleRequired, TitleLength, DescriptionType, DescriptionLength, PriorityEnum]"

definition violatedRules :: "jsobj \<Rightarrow> createRule list" where
  "violatedRules body = filter (violates body) allRules"

text \<open>
  A create input as the data model of the specification bounds it (the title's lower
  bound apart): title at most 200 characters, description at most 1000, priority one of
  the three values.
\<close>

definition validTaskData :: "taskData \<Rightarrow> bool" where
  "validTaskData d \<longleftrightarrow>
     length (taskData.title d) \<le> 200 \<and>
     (case taskData.description d of None \<Rightarrow> True | Some x \<Rightarrow> length x \<le> 1000) \<and>
     (case taskData.priority d of None \<Rightarrow> True | Some p \<Rightarrow> p \<in> set VALID_PRIORITIES)"

text \<open>The invariants of a stored task, as the specification lists them (the id apart).\<close>

definition taskInvariant :: "task \<Rightarrow> bool" where
  "taskInvariant t \<longleftrightarrow>
     title t \<noteq> [] \<and> length (title t) \<le> 200 \<and> length (description t) \<le> 1000 \<and>
     priority t \<in> set [''low'', ''medium'', ''high''] \<and>
     status t \<in> set [''pending'', ''completed'']"

text \<open>
  The rows a list request asks for: a filter that is present (a non-empty string) must
  equal the row's column.
\<close>

definition wanted :: "filters \<Rightarrow> task \<Rightarrow> bool" where
  "wanted f t \<longleftrightarrow>
     (present (filters.status f) \<longrightarrow> filters.status f = Some (status t)) \<and>
     (present (filters.priority f) \<longrightarrow> filters.priority f = Some (priority t))"

text \<open>
  Statement texts free of data: a \<open>WHERE\<close> part that names a filtered column with a
  placeholder, and an \<open>ORDER BY\<close> part whose one identifier is a column of the allow-list.
\<close>

definition allowList :: "string list" where
  "allowList = [''title'', ''priority'', ''status'', ''createdAt'']"

definition whereTemplates :: "string list" where
  "whereTemplates =
     [[], ''WHERE status = ?'', ''WHERE priority = ?'', ''WHERE status = ? AND priority = ?'']"

definition orderTemplates :: "string list" where
  "orderTemplates =
     [] # concat (map (\<lambda>c. [''ORDER BY '' @ c @ '' ASC'', ''ORDER BY '' @ c @ '' DESC'']) allowList)"

definition selectTemplates :: "string list" where
  "selectTemplates =
     concat (map (\<lambda>w. map (\<lambda>ob. ''SELECT * FROM tasks '' @ w @ '' '' @ ob) orderTemplates)
               whereTemplates)"

text \<open>The values of the filters that are present, in the order status, priority.\<close>

definition filterValues :: "filters \<Rightarrow> string list" where
  "filterValues f =
     (if present (filters.status f) then [orElse (filters.status f) []] else [])
       @ (if present (filters.priority f) then [orElse (filters.priority f) []] else [])"

text \<open>
  A sort parameter as the validator leaves it: absent, empty, or one of the four
  recognized fields.
\<close>

definition sortOk :: "string option \<Rightarrow> bool" where
  "sortOk sb \<longleftrightarrow> sb = None \<or> sb = Some [] \<or> (\<exists>c \<in> set validSortFields. sb = Some c)"

text \<open>A table of three tasks, for the worked examples.\<close>

definition exampleStorage :: storage where
  "exampleStorage =
     \<lparr>isInitialized = True,
      db = [\<lparr>id' = ''task_1_a'', title = ''Buy milk'', description = [], priority = ''high'',
             status = ''pending'', createdAt = ''2023-11-14T22:13:20.000Z''\<rparr>,
            \<lparr>id' = ''task_2_b'', title = ''Walk'', description = ''dog'', priority = ''high'',
             status = ''completed'', createdAt = ''2023-11-15T08:00:00.000Z''\<rparr>,
            \<lparr>id' = ''task_3_c'', title = ''Call'', description = [], priority = ''low'',
             status = ''completed'', createdAt = ''2023-11-16T08:00:00.000Z''\<rparr>]\<rparr>"

section \<open>Create validation reports every violated rule\<close>

lemma trim_Nil [simp]: "trim [] = []"
  by (simp add: trim_def)

lemma priorityMessage:
  "''Priority must be one of: '' @ join '', '' VALID_PRIORITIES = ruleMessage PriorityEnum"
  by (simp add: VALID_PRIORITIES_def)

lemma titleErrors_rules:
  "titleErrors (body ''title'') =
     map ruleMessage (filter (violates body) [TitleRequired, TitleLength])"
  by (cases "body ''title''") (auto simp: titleErrors_def)

lemma descriptionErrors_rules:
  "descriptionErrors (body ''description'') =
     map ruleMessage (filter (violates body) [DescriptionType, DescriptionLength])"
  by (cases "body ''description''") (auto simp: descriptionErrors_def)

lemma priorityErrors_rules:
  "priorityErrors (body ''priority'') = map ruleMessage (filter (violates body) [PriorityEnum])"
  by (cases "body ''priority''")
    (auto simp: priorityErrors_def priorityMessage simp del: ruleMessage.simps,
     auto simp: VALID_PRIORITIES_def)

lemma createTaskErrors_rules: "createTaskErrors body = map ruleMessage (violatedRules body)"
  unfolding createTaskErrors_def violatedRules_def allRules_def
    titleErrors_rules descriptionErrors_rules priorityErrors_rules
  by (simp del: violates.simps ruleMessage.simps)

lemma inj_ruleMessage: "inj ruleMessage"
proof (rule injI)
  fix a b
  show "ruleMessage a = ruleMessage b \<Longrightarrow> a = b"
    by (cases a; cases b) simp_all
qed

lemma set_allRules: "set allRules = UNIV"
proof -
  have "r \<in> set allRules" for r
    by (cases r) (simp_all add: allRules_def)
  then show ?thesis by blast
qed

text \<open>
  Claim C6. For every create request the \<open>errors\<close> array holds the message of each rule
  the body violates (title required and non-empty, title at most 200, description a
  string, description at most 1000, priority in the enumeration), in rule order and
  nothing else: a rule is violated exactly when its message is listed, so no check is
  skipped after an earlier one has failed. When some rule is violated the request is
  answered once, with status 400, label \<open>Validation Error\<close> and these messages as
  \<open>details\<close>; when none is, the request goes on. In particular a body without a title
  and with a priority outside the enumeration is answered with a 400 whose details hold
  both the missing-title and the invalid-priority message.
\<close>

theorem validateCreateTask_collects_all:
  "createTaskErrors body = map ruleMessage (violatedRules body) \<and>
   (\<forall>r. violates body r \<longleftrightarrow> ruleMessage r \<in> set (createTaskErrors body)) \<and>
   (violatedRules body \<noteq> [] \<longrightarrow>
      validateCreateTask body =
        Respond \<lparr>statusCode = 400, errorLabel = ''Validation Error'',
                 message = ''Invalid input data'',
                 details = map ruleMessage (violatedRules body)\<rparr>) \<and>
   (violatedRules body = [] \<longrightarrow> (\<exists>b. validateCreateTask body = Next b)) \<and>
   (body ''title'' = JUndefined \<and> violates body PriorityEnum \<longrightarrow>
      (\<exists>e. validateCreateTask body = Respond e \<and> statusCode e = 400 \<and>
           ruleMessage TitleRequired \<in> set (details e) \<and>
           ruleMessage PriorityEnum \<in> set (details e)))"
proof -
  have mem: "violates body r \<longleftrightarrow> ruleMessage r \<in> set (createTaskErrors body)" for r
    unfolding createTaskErrors_rules violatedRules_def
    using inj_ruleMessage set_allRules
    by (auto simp: inj_eq simp del: violates.simps ruleMessage.simps)
  have resp: "violatedRules body \<noteq> [] \<Longrightarrow>
      validateCreateTask body =
        Respond \<lparr>statusCode = 400, errorLabel = ''Validation Error'',
                 message = ''Invalid input data'',
                 details = map ruleMessage (violatedRules body)\<rparr>"
    by (simp add: validateCreateTask_def Let_def validationError_def createTaskErrors_rules
        del: violates.simps ruleMessage.simps)
  have nxt: "violatedRules body = [] \<Longrightarrow> \<exists>b. validateCreateTask body = Next b"
    by (simp add: validateCreateTask_def Let_def createTaskErrors_rules)
  have both: "\<exists>e. validateCreateTask body = Respond e \<and> statusCode e = 400 \<and>
           ruleMessage TitleRequired \<in> set (details e) \<and>
           ruleMessage PriorityEnum \<in> set (details e)"
    if t: "body ''title'' = JUndefined" and p: "violates body PriorityEnum"
  proof -
    have v: "violates body TitleRequired"
      using t by simp
    have m1: "ruleMessage TitleRequired \<in> set (map ruleMessage (violatedRules body))"
      using v mem [of TitleRequired] by (simp only: createTaskErrors_rules)
    have m2: "ruleMessage PriorityEnum \<in> set (map ruleMessage (violatedRules body))"
      using p mem [of PriorityEnum] by (simp only: createTaskErrors_rules)
    have ne: "violatedRules body \<noteq> []"
      using m1 by auto
    show ?thesis
      using resp [OF ne] m1 m2 by simp
  qed
  show ?thesis
    using mem resp nxt both createTaskErrors_rules by blast
qed

theorem validateCreateTask_collects_all_witness:
  "validateCreateTask (emptyObj(''description'' := JStr ''x'', ''priority'' := JStr ''bogus'')) =
     Respond \<lparr>statusCode = 400, errorLabel = ''Validation Error'',
              message = ''Invalid input data'',
              details = [''Title is required and must be a non-empty string'',
                         ''Priority must be one of: low, medium, high'']\<rparr>"
  using validateCreateTask_collects_all
    [of "emptyObj(''description'' := JStr ''x'', ''priority'' := JStr ''bogus'')"]
  by (simp add: violatedRules_def allRules_def emptyObj_def)

section \<open>The statements of the storage layer, run on the table\<close>

lemmas lexer_chars = isSqlSpace_def isSqlPunct_def

lemma parse_insertSql: "parse (lexer [] insertSql) = Some InsertTask"
  by (simp add: insertSql_def lexer_chars parse_def insertTokens_def)

lemma parse_selectByIdSql: "parse (lexer [] selectByIdSql) = Some (SelectAll [''id''] None)"
  by (simp add: selectByIdSql_def lexer_chars parse_def parseWhere_def parseOrder_def)

lemma parse_updateSql: "parse (lexer [] updateSql) = Some (UpdateStatus [''id''])"
  by (simp add: updateSql_def lexer_chars parse_def parseWhere_def insertTokens_def)

lemma parse_deleteSql: "parse (lexer [] deleteSql) = Some (DeleteFrom [''id''])"
  by (simp add: deleteSql_def lexer_chars parse_def parseWhere_def insertTokens_def)

lemma bind_id: "bindConds [''id''] [i] = Some [(id', i)]"
  by (simp add: column_def)

lemma satisfies_id: "satisfies [(id', i)] = (\<lambda>t. id' t = i)"
  by (rule ext) (simp add: satisfies_def)

lemma runSelect_byId:
  "runSelect selectByIdSql [i] tbl = Inr (filter (\<lambda>t. id' t = i) tbl)"
  by (simp add: runSelect_def parse_selectByIdSql bind_id orderRows_def satisfies_id del: bindConds.simps)

lemma db_ensureInitialized [simp]: "db (ensureInitialized s) = db s"
  by (simp add: ensureInitialized_def)

lemma ensureInitialized_idem [simp]: "ensureInitialized (ensureInitialized s) = ensureInitialized s"
  by (simp add: ensureInitialized_def)

lemma find_filter_Cons: "filter P xs = y # ys \<Longrightarrow> find P xs = Some y"
  by (induction xs) (auto split: if_splits)

lemma getTaskById_eq:
  "getTaskById i s =
     (case find (\<lambda>t. id' t = i) (db s) of
        None \<Rightarrow> (Inl TaskNotFound, ensureInitialized s)
      | Some t \<Rightarrow> (Inr t, ensureInitialized s))"
proof (cases "filter (\<lambda>t. id' t = i) (db s)")
  case Nil
  then have "find (\<lambda>t. id' t = i) (db s) = None"
    by (simp add: find_None_iff filter_empty_conv)
  with Nil show ?thesis
    by (simp add: getTaskById_def getTaskByIdQuery_def getQuery_def runSelect_byId)
next
  case (Cons r rs)
  then have "find (\<lambda>t. id' t = i) (db s) = Some r"
    by (rule find_filter_Cons)
  with Cons show ?thesis
    by (simp add: getTaskById_def getTaskByIdQuery_def getQuery_def runSelect_byId)
qed


lemma runWrite_insert:
  "runWrite insertSql [i, t, d, p, st, c] tbl =
     (if i \<in> set (map id' tbl) \<or> p \<notin> set [''low'', ''medium'', ''high'']
         \<or> st \<notin> set [''pending'', ''completed'']
      then Inl SqliteError
      else Inr (1, tbl @ [\<lparr>id' = i, title = t, description = d, priority = p,
                           status = st, createdAt = c\<rparr>]))"
  by (simp add: runWrite_def parse_insertSql)

lemma runWrite_update:
  "runWrite updateSql [v, i] tbl =
     (if filter (\<lambda>t. id' t = i) tbl \<noteq> [] \<and> v \<notin> set [''pending'', ''completed'']
      then Inl SqliteError
      else Inr (length (filter (\<lambda>t. id' t = i) tbl),
                map (\<lambda>t. if id' t = i then t\<lparr>status := v\<rparr> else t) tbl))"
  by (simp add: runWrite_def parse_updateSql bind_id satisfies_id del: bindConds.simps)

lemma runWrite_delete:
  "runWrite deleteSql [i] tbl =
     Inr (length (filter (\<lambda>t. id' t = i) tbl), filter (\<lambda>t. id' t \<noteq> i) tbl)"
  by (simp add: runWrite_def parse_deleteSql bind_id satisfies_id del: bindConds.simps)

lemma createTask_eq:
  "createTask now rnd isoNow d s =
     (let newTask = \<lparr>id' = generateId now rnd, title = taskData.title d,
                      description = orElse (taskData.description d) [],
                      priority = orElse (taskData.priority d) ''medium'',
                      status = ''pending'', createdAt = isoNow\<rparr>
      in if generateId now rnd \<in> set (map id' (db s))
            \<or> orElse (taskData.priority d) ''medium'' \<notin> set [''low'', ''medium'', ''high'']
         then (Inl SqliteError, ensureInitialized s)
         else (Inr newTask, (ensureInitialized s)\<lparr>db := db s @ [newTask]\<rparr>))"
  by (simp add: createTask_def createTaskQuery_def runQuery_def runWrite_insert Let_def)

lemma updateTaskStatus_eq:
  "updateTaskStatus i b s =
     (let v = (if b then ''completed'' else ''pending'');
          s1 = (ensureInitialized s)\<lparr>db := map (\<lambda>t. if id' t = i then t\<lparr>status := v\<rparr> else t) (db s)\<rparr>
      in if filter (\<lambda>t. id' t = i) (db s) = [] then (Inl TaskNotFound, s1)
         else getTaskById i s1)"
  by (simp add: updateTaskStatus_def updateTaskStatusQuery_def runQuery_def runWrite_update Let_def)

lemma deleteTask_eq:
  "deleteTask i s =
     (case find (\<lambda>t. id' t = i) (db s) of
        None \<Rightarrow> (Inl TaskNotFound, ensureInitialized s)
      | Some t \<Rightarrow> (Inr t, (ensureInitialized s)\<lparr>db := filter (\<lambda>t. id' t \<noteq> i) (db s)\<rparr>))"
  by (simp add: deleteTask_def getTaskById_eq deleteTaskQuery_def runQuery_def runWrite_delete
      split: option.splits)


lemma isInitialized_ensureInitialized [simp]: "isInitialized (ensureInitialized s)"
  by (simp add: ensureInitialized_def)

lemma ensureInitialized_db_update [simp]:
  "ensureInitialized ((ensureInitialized s)\<lparr>db := tbl\<rparr>) = (ensureInitialized s)\<lparr>db := tbl\<rparr>"
  by (simp add: ensureInitialized_def)

lemma find_snoc_new:
  "\<forall>x \<in> set xs. \<not> P x \<Longrightarrow> P y \<Longrightarrow> find P (xs @ [y]) = Some y"
  by (induction xs) auto

lemma find_map_status:
  "find (\<lambda>t. id' t = i) (map (\<lambda>t. if id' t = i then t\<lparr>status := v\<rparr> else t) xs) =
     map_option (\<lambda>t. t\<lparr>status := v\<rparr>) (find (\<lambda>t. id' t = i) xs)"
  by (induction xs) auto

lemma find_id_Some:
  "i \<in> set (map id' xs) \<Longrightarrow> \<exists>t. find (\<lambda>t. id' t = i) xs = Some t \<and> t \<in> set xs \<and> id' t = i"
  by (induction xs) auto

lemma find_id_None: "i \<notin> set (map id' xs) \<Longrightarrow> find (\<lambda>t. id' t = i) xs = None"
  by (induction xs) auto

lemma orElse_valid_priority:
  "(case p of None \<Rightarrow> True | Some x \<Rightarrow> x \<in> set VALID_PRIORITIES) \<Longrightarrow>
   orElse p ''medium'' = (case p of None \<Rightarrow> ''medium'' | Some x \<Rightarrow> x) \<and>
   orElse p ''medium'' \<in> set [''low'', ''medium'', ''high'']"
  by (cases p) (auto simp: VALID_PRIORITIES_def)

lemma orElse_empty: "orElse x [] = (case x of None \<Rightarrow> [] | Some v \<Rightarrow> v)"
  by (cases x) auto

section \<open>Create, fetch, update, delete\<close>

text \<open>
  Claim C1. Whenever \<open>createTask\<close> returns a record, \<open>getTaskById\<close> with the returned
  id returns the identical record. For every valid create input (title, optional
  description, optional priority) and a generated identifier not yet in the table,
  \<open>createTask\<close> does return a record: the generated id, the title given, the
  description given or the empty string, the priority given or \<open>medium\<close>, status
  \<open>pending\<close> and the creation time read by \<open>createTask\<close>.
\<close>

theorem createTask_then_getTaskById:
  "(\<forall>t s1. createTask now rnd isoNow d s = (Inr t, s1) \<longrightarrow>
            getTaskById (id' t) s1 = (Inr t, s1)) \<and>
   (validTaskData d \<and> generateId now rnd \<notin> set (map id' (db s)) \<longrightarrow>
      (\<exists>t s1. createTask now rnd isoNow d s = (Inr t, s1) \<and>
           getTaskById (id' t) s1 = (Inr t, s1) \<and>
           t = \<lparr>id' = generateId now rnd,
                 title = taskData.title d,
                 description = (case taskData.description d of None \<Rightarrow> [] | Some x \<Rightarrow> x),
                 priority = (case taskData.priority d of None \<Rightarrow> ''medium'' | Some p \<Rightarrow> p),
                 status = ''pending'',
                 createdAt = isoNow\<rparr>))"
proof -
  define t where "t = \<lparr>id' = generateId now rnd, title = taskData.title d,
      description = orElse (taskData.description d) [],
      priority = orElse (taskData.priority d) ''medium'',
      status = ''pending'', createdAt = isoNow\<rparr>"
  define s1 where "s1 = (ensureInitialized s)\<lparr>db := db s @ [t]\<rparr>"
  have fetched: "getTaskById (id' t) s1 = (Inr t, s1)"
    if fresh: "generateId now rnd \<notin> set (map id' (db s))"
  proof -
    have "find (\<lambda>r. id' r = id' t) (db s @ [t]) = Some t"
    proof (rule find_snoc_new)
      show "\<forall>x \<in> set (db s). \<not> id' x = id' t"
        using fresh by (force simp: t_def)
      show "id' t = id' t" by simp
    qed
    then show ?thesis
      by (simp add: getTaskById_eq s1_def)
  qed
  have returned: "getTaskById (id' t') s' = (Inr t', s')"
    if "createTask now rnd isoNow d s = (Inr t', s')" for t' s'
  proof -
    from that have "generateId now rnd \<notin> set (map id' (db s))" and "t' = t" and "s' = s1"
      by (auto simp: createTask_eq Let_def t_def s1_def split: if_splits)
    with fetched show ?thesis by simp
  qed
  have total: "\<exists>t s1. createTask now rnd isoNow d s = (Inr t, s1) \<and>
           getTaskById (id' t) s1 = (Inr t, s1) \<and>
           t = \<lparr>id' = generateId now rnd,
                 title = taskData.title d,
                 description = (case taskData.description d of None \<Rightarrow> [] | Some x \<Rightarrow> x),
                 priority = (case taskData.priority d of None \<Rightarrow> ''medium'' | Some p \<Rightarrow> p),
                 status = ''pending'',
                 createdAt = isoNow\<rparr>"
    if h: "validTaskData d \<and> generateId now rnd \<notin> set (map id' (db s))"
  proof -
    have pr: "orElse (taskData.priority d) ''medium'' =
                (case taskData.priority d of None \<Rightarrow> ''medium'' | Some x \<Rightarrow> x)"
      and ok: "orElse (taskData.priority d) ''medium'' \<in> set [''low'', ''medium'', ''high'']"
    proof -
      have "case taskData.priority d of None \<Rightarrow> True | Some x \<Rightarrow> x \<in> set VALID_PRIORITIES"
        using h by (simp add: validTaskData_def)
      from orElse_valid_priority [OF this]
      show "orElse (taskData.priority d) ''medium'' =
                (case taskData.priority d of None \<Rightarrow> ''medium'' | Some x \<Rightarrow> x)"
        and "orElse (taskData.priority d) ''medium'' \<in> set [''low'', ''medium'', ''high'']"
        by blast+
    qed
    have created: "createTask now rnd isoNow d s = (Inr t, s1)"
      using h ok by (simp add: createTask_eq Let_def t_def s1_def)
    have "t = \<lparr>id' = generateId now rnd, title = taskData.title d,
        description = (case taskData.description d of None \<Rightarrow> [] | Some x \<Rightarrow> x),
        priority = (case taskData.priority d of None \<Rightarrow> ''medium'' | Some p \<Rightarrow> p),
        status = ''pending'', createdAt = isoNow\<rparr>"
      by (simp add: t_def pr orElse_empty)
    with created fetched h show ?thesis by blast
  qed
  show ?thesis
    using returned total by blast
qed

theorem createTask_then_getTaskById_witness:
  "\<exists>t s1. createTask 1700000000000 ''0.4fzyo82mvyr'' ''2023-11-14T22:13:20.000Z''
             \<lparr>taskData.title = ''Buy milk'', description = None, priority = Some ''low''\<rparr>
             \<lparr>isInitialized = False, db = []\<rparr> = (Inr t, s1) \<and>
           getTaskById (id' t) s1 = (Inr t, s1) \<and>
           t = \<lparr>id' = ''task_1700000000000_4fzyo82mv'', title = ''Buy milk'', description = [],
                 priority = ''low'', status = ''pending'',
                 createdAt = ''2023-11-14T22:13:20.000Z''\<rparr>"
  using createTask_then_getTaskById
    [of 1700000000000 "''0.4fzyo82mvyr''" "''2023-11-14T22:13:20.000Z''"
        "\<lparr>taskData.title = ''Buy milk'', description = None, priority = Some ''low''\<rparr>"
        "\<lparr>isInitialized = False, db = []\<rparr>"]
  by (simp add: validTaskData_def VALID_PRIORITIES_def generateId_def substr_def
      digits10.simps digitChar_def)

text \<open>
  Claim C4. For a stored id, \<open>deleteTask\<close> returns the record that \<open>getTaskById\<close>
  returns before the deletion (a row of the table with that id), removes the rows with
  that id and leaves the others, and \<open>getTaskById\<close> on the same id then fails with
  \<open>TaskNotFound\<close>. For an absent id, \<open>deleteTask\<close> fails with \<open>TaskNotFound\<close> and the
  table is unchanged.
\<close>

theorem deleteTask_returns_prior_record:
  "(taskId \<in> set (map id' (db s)) \<longrightarrow>
      (\<exists>t s1 s2. getTaskById taskId s = (Inr t, s1) \<and> t \<in> set (db s) \<and> id' t = taskId \<and>
          deleteTask taskId s = (Inr t, s2) \<and>
          db s2 = filter (\<lambda>r. id' r \<noteq> taskId) (db s) \<and>
          fst (getTaskById taskId s2) = Inl TaskNotFound)) \<and>
   (taskId \<notin> set (map id' (db s)) \<longrightarrow>
      fst (deleteTask taskId s) = Inl TaskNotFound \<and> db (snd (deleteTask taskId s)) = db s)"
proof (intro conjI impI)
  assume "taskId \<in> set (map id' (db s))"
  then obtain t where t: "find (\<lambda>r. id' r = taskId) (db s) = Some t" "t \<in> set (db s)" "id' t = taskId"
    using find_id_Some by blast
  have gone: "find (\<lambda>r. id' r = taskId) (filter (\<lambda>r. id' r \<noteq> taskId) (db s)) = None"
    by (simp add: find_None_iff)
  show "\<exists>t s1 s2. getTaskById taskId s = (Inr t, s1) \<and> t \<in> set (db s) \<and> id' t = taskId \<and>
          deleteTask taskId s = (Inr t, s2) \<and>
          db s2 = filter (\<lambda>r. id' r \<noteq> taskId) (db s) \<and>
          fst (getTaskById taskId s2) = Inl TaskNotFound"
    using t gone by (simp add: getTaskById_eq deleteTask_eq)
next
  assume "taskId \<notin> set (map id' (db s))"
  then have "find (\<lambda>r. id' r = taskId) (db s) = None"
    by (rule find_id_None)
  then show "fst (deleteTask taskId s) = Inl TaskNotFound"
    and "db (snd (deleteTask taskId s)) = db s"
    by (simp_all add: deleteTask_eq)
qed

text \<open>
  Claim C5. For a stored id, \<open>updateTaskStatus\<close> with \<open>True\<close> returns the stored record
  with status \<open>completed\<close>, with \<open>False\<close> with status \<open>pending\<close>, every other field
  as it was; the record returned is the one a fetch after the update returns; in the
  table the rows with that id have the new status and are otherwise unchanged, and every
  other row is unchanged.
\<close>

theorem updateTaskStatus_changes_status_only:
  assumes stored: "taskId \<in> set (map id' (db s))"
  shows "\<exists>t s0 s1. getTaskById taskId s = (Inr t, s0) \<and>
           updateTaskStatus taskId b s =
             (Inr (t\<lparr>status := (if b then ''completed'' else ''pending'')\<rparr>), s1) \<and>
           getTaskById taskId s1 =
             (Inr (t\<lparr>status := (if b then ''completed'' else ''pending'')\<rparr>), s1) \<and>
           db s1 = map (\<lambda>r. if id' r = taskId
                               then r\<lparr>status := (if b then ''completed'' else ''pending'')\<rparr>
                               else r) (db s)"
proof -
  obtain t where t: "find (\<lambda>r. id' r = taskId) (db s) = Some t" "t \<in> set (db s)" "id' t = taskId"
    using stored find_id_Some by blast
  have ne: "filter (\<lambda>r. id' r = taskId) (db s) \<noteq> []"
    using t(2,3) by (auto simp: filter_empty_conv)
  show ?thesis
    using t(1) ne
    by (simp add: getTaskById_eq updateTaskStatus_eq Let_def find_map_status)
qed

theorem deleteTask_returns_prior_record_witness:
  "(\<exists>t s1 s2.
      getTaskById ''task_1_a''
        \<lparr>isInitialized = True,
           db = [\<lparr>id' = ''task_1_a'', title = ''Buy milk'', description = [], priority = ''low'',
                  status = ''completed'', createdAt = ''2023-11-14T22:13:20.000Z''\<rparr>]\<rparr> = (Inr t, s1) \<and>
      t = \<lparr>id' = ''task_1_a'', title = ''Buy milk'', description = [], priority = ''low'',
            status = ''completed'', createdAt = ''2023-11-14T22:13:20.000Z''\<rparr> \<and>
      deleteTask ''task_1_a''
        \<lparr>isInitialized = True,
           db = [\<lparr>id' = ''task_1_a'', title = ''Buy milk'', description = [], priority = ''low'',
                  status = ''completed'', createdAt = ''2023-11-14T22:13:20.000Z''\<rparr>]\<rparr> = (Inr t, s2) \<and>
      db s2 = [] \<and> fst (getTaskById ''task_1_a'' s2) = Inl TaskNotFound) \<and>
   fst (deleteTask ''task_2_b'' \<lparr>isInitialized = True, db = []\<rparr>) = Inl TaskNotFound \<and>
   db (snd (deleteTask ''task_2_b'' \<lparr>isInitialized = True, db = []\<rparr>)) = []"
  using deleteTask_returns_prior_record
    [of "''task_1_a''"
        "\<lparr>isInitialized = True,
           db = [\<lparr>id' = ''task_1_a'', title = ''Buy milk'', description = [], priority = ''low'',
                  status = ''completed'', createdAt = ''2023-11-14T22:13:20.000Z''\<rparr>]\<rparr>"]
    deleteTask_returns_prior_record [of "''task_2_b''" "\<lparr>isInitialized = True, db = []\<rparr>"]
  by auto

theorem updateTaskStatus_changes_status_only_witness:
  "\<exists>s1. updateTaskStatus ''task_1_a'' True
           \<lparr>isInitialized = True,
              db = [\<lparr>id' = ''task_1_a'', title = ''Buy milk'', description = [], priority = ''low'',
                     status = ''pending'', createdAt = ''2023-11-14T22:13:20.000Z''\<rparr>,
                    \<lparr>id' = ''task_2_b'', title = ''Walk'', description = ''dog'', priority = ''high'',
                     status = ''pending'', createdAt = ''2023-11-15T08:00:00.000Z''\<rparr>]\<rparr> =
          (Inr \<lparr>id' = ''task_1_a'', title = ''Buy milk'', description = [], priority = ''low'',
                 status = ''completed'', createdAt = ''2023-11-14T22:13:20.000Z''\<rparr>, s1) \<and>
        db s1 = [\<lparr>id' = ''task_1_a'', title = ''Buy milk'', description = [], priority = ''low'',
                   status = ''completed'', createdAt = ''2023-11-14T22:13:20.000Z''\<rparr>,
                  \<lparr>id' = ''task_2_b'', title = ''Walk'', description = ''dog'', priority = ''high'',
                   status = ''pending'', createdAt = ''2023-11-15T08:00:00.000Z''\<rparr>]"
  using updateTaskStatus_changes_status_only
    [of "''task_1_a''"
        "\<lparr>isInitialized = True,
           db = [\<lparr>id' = ''task_1_a'', title = ''Buy milk'', description = [], priority = ''low'',
                  status = ''pending'', createdAt = ''2023-11-14T22:13:20.000Z''\<rparr>,
                 \<lparr>id' = ''task_2_b'', title = ''Walk'', description = ''dog'', priority = ''high'',
                  status = ''pending'', createdAt = ''2023-11-15T08:00:00.000Z''\<rparr>]\<rparr>" True]
  by (auto simp: getTaskById_eq)

lemma lexer_space_split:
  "isSqlSpace c \<Longrightarrow> lexer w (xs @ c # ys) = lexer w xs @ lexer [] ys"
  by (induction xs arbitrary: w) auto

lemma lexer_select_split:
  "lexer [] (''SELECT * FROM tasks '' @ wc @ '' '' @ ob) =
     [''SELECT'', ''*'', ''FROM'', ''tasks''] @ lexer [] wc @ lexer [] ob"
proof -
  have sp: "isSqlSpace (CHR '' '')"
    by (simp add: isSqlSpace_def)
  have "lexer [] (''SELECT * FROM tasks '' @ wc @ '' '' @ ob) =
          lexer [] (''SELECT * FROM tasks'' @ CHR '' '' # (wc @ CHR '' '' # ob))"
    by simp
  also have "\<dots> = lexer [] ''SELECT * FROM tasks'' @ lexer [] (wc @ CHR '' '' # ob)"
    by (rule lexer_space_split [OF sp])
  also have "lexer [] (wc @ CHR '' '' # ob) = lexer [] wc @ lexer [] ob"
    by (rule lexer_space_split [OF sp])
  also have "lexer [] ''SELECT * FROM tasks'' = [''SELECT'', ''*'', ''FROM'', ''tasks'']"
    by (simp add: lexer_chars)
  finally show ?thesis .
qed

lemma lexer_where:
  "lexer [] (fst (buildWhereClause f)) =
     (if present (filters.status f) \<or> present (filters.priority f) then [''WHERE''] else [])
     @ (if present (filters.status f) then [''status'', ''='', ''?''] else [])
     @ (if present (filters.status f) \<and> present (filters.priority f) then [''AND''] else [])
     @ (if present (filters.priority f) then [''priority'', ''='', ''?''] else [])"
proof -
  consider (both) "present (filters.status f)" "present (filters.priority f)"
    | (st) "present (filters.status f)" "\<not> present (filters.priority f)"
    | (pr) "\<not> present (filters.status f)" "present (filters.priority f)"
    | (none) "\<not> present (filters.status f)" "\<not> present (filters.priority f)"
    by blast
  then show ?thesis
  proof cases
    case both
    then have "fst (buildWhereClause f) = ''WHERE status = ? AND priority = ?''"
      by (cases "filters.status f"; cases "filters.priority f")
         (simp_all add: buildWhereClause_def)
    with both show ?thesis by (simp add: lexer_chars)
  next
    case st
    then have "fst (buildWhereClause f) = ''WHERE status = ?''"
      by (cases "filters.status f"; cases "filters.priority f")
         (simp_all add: buildWhereClause_def)
    with st show ?thesis by (simp add: lexer_chars)
  next
    case pr
    then have "fst (buildWhereClause f) = ''WHERE priority = ?''"
      by (cases "filters.status f"; cases "filters.priority f")
         (simp_all add: buildWhereClause_def)
    with pr show ?thesis by (simp add: lexer_chars)
  next
    case none
    then have "fst (buildWhereClause f) = []"
      by (cases "filters.status f"; cases "filters.priority f")
         (simp_all add: buildWhereClause_def)
    with none show ?thesis by simp
  qed
qed


lemma lexer_order:
  assumes "sortOk sb"
  shows "lexer [] (buildOrderByClause sb) =
     (case sb of
        None \<Rightarrow> []
      | Some c \<Rightarrow> if c = [] then []
                  else if c = ''createdAt'' then [''ORDER'', ''BY'', c, ''DESC'']
                  else [''ORDER'', ''BY'', c, ''ASC''])"
proof -
  consider "sb = None" | "sb = Some []" | "sb = Some ''title''" | "sb = Some ''priority''"
    | "sb = Some ''status''" | "sb = Some ''createdAt''"
    using assms by (auto simp: sortOk_def validSortFields_def)
  then show ?thesis
    by cases (simp_all add: buildOrderByClause_def lexer_chars)
qed

lemma parseWhere_tokens:
  assumes "ot = [] \<or> (\<exists>r. ot = ''ORDER'' # r)"
  shows "parseWhere
     ((if ps \<or> pp then [''WHERE''] else [])
       @ (if ps then [''status'', ''='', ''?''] else [])
       @ (if ps \<and> pp then [''AND''] else [])
       @ (if pp then [''priority'', ''='', ''?''] else []) @ ot) =
     Some ((if ps then [''status''] else []) @ (if pp then [''priority''] else []), ot)"
  using assms by (cases ps; cases pp) (auto simp: parseWhere_def)

lemma parseOrder_tokens:
  "parseOrder [] = Some None"
  "parseOrder [''ORDER'', ''BY'', c, ''DESC''] = Some (Some (c, DESC))"
  "parseOrder [''ORDER'', ''BY'', c, ''ASC''] = Some (Some (c, ASC))"
  by (simp_all add: parseOrder_def)

lemma parse_getAllTasksQuery:
  assumes ok: "sortOk (sortBy f)"
  shows "parse (lexer [] (fst (getAllTasksQuery f))) =
     Some (SelectAll
       ((if present (filters.status f) then [''status''] else [])
          @ (if present (filters.priority f) then [''priority''] else []))
       (case sortBy f of
          None \<Rightarrow> None
        | Some c \<Rightarrow> if c = [] then None
                    else if c = ''createdAt'' then Some (c, DESC) else Some (c, ASC)))"
proof -
  define ot where "ot = lexer [] (buildOrderByClause (sortBy f))"
  have ot: "ot = (case sortBy f of
        None \<Rightarrow> []
      | Some c \<Rightarrow> if c = [] then []
                  else if c = ''createdAt'' then [''ORDER'', ''BY'', c, ''DESC'']
                  else [''ORDER'', ''BY'', c, ''ASC''])"
    unfolding ot_def by (rule lexer_order [OF ok])
  have shape: "ot = [] \<or> (\<exists>r. ot = ''ORDER'' # r)"
    unfolding ot by (simp split: option.splits)
  have po: "parseOrder ot = Some (case sortBy f of
          None \<Rightarrow> None
        | Some c \<Rightarrow> if c = [] then None
                    else if c = ''createdAt'' then Some (c, DESC) else Some (c, ASC))"
    unfolding ot by (simp add: parseOrder_tokens split: option.splits)
  define wt where "wt = lexer [] (fst (buildWhereClause f))"
  define cols where "cols = (if present (filters.status f) then [''status''] else [])
          @ (if present (filters.priority f) then [''priority''] else [])"
  have toks: "lexer [] (fst (getAllTasksQuery f)) = [''SELECT'', ''*'', ''FROM'', ''tasks''] @ wt @ ot"
    by (simp add: getAllTasksQuery_def ot_def wt_def lexer_select_split split_beta Let_def
        del: append.simps)
  have pw: "parseWhere (wt @ ot) = Some (cols, ot)"
    unfolding wt_def cols_def lexer_where
    using parseWhere_tokens [OF shape, of "present (filters.status f)" "present (filters.priority f)"]
    by (simp only: append_assoc)
  have "parse ([''SELECT'', ''*'', ''FROM'', ''tasks''] @ rest) =
          (case parseWhere rest of
             None \<Rightarrow> None
           | Some (cs, r) \<Rightarrow>
               (case parseOrder r of None \<Rightarrow> None | Some ob \<Rightarrow> Some (SelectAll cs ob)))" for rest
    by (simp add: parse_def)
  then show ?thesis
    unfolding toks by (simp add: pw po cols_def)
qed


lemma getAllTasksQuery_params: "snd (getAllTasksQuery f) = filterValues f"
  by (cases "filters.status f"; cases "filters.priority f")
     (simp_all add: getAllTasksQuery_def buildWhereClause_def filterValues_def Let_def)

lemma bind_filters:
  "\<exists>bs. bindConds
          ((if present (filters.status f) then [''status''] else [])
             @ (if present (filters.priority f) then [''priority''] else []))
          (filterValues f) = Some bs \<and> satisfies bs = wanted f"
proof -
  have "\<exists>bs. bindConds
          ((if present st then [''status''] else []) @ (if present pr then [''priority''] else []))
          ((if present st then [orElse st []] else []) @ (if present pr then [orElse pr []] else []))
            = Some bs \<and>
          satisfies bs = (\<lambda>t. (present st \<longrightarrow> st = Some (status t)) \<and>
                              (present pr \<longrightarrow> pr = Some (priority t)))" for st pr
    by (cases st; cases pr) (auto simp: column_def satisfies_def fun_eq_iff)
  from this [of "filters.status f" "filters.priority f"] show ?thesis
    by (simp add: filterValues_def wanted_def [abs_def])
qed

lemma getAllTasks_result:
  assumes ok: "sortOk (sortBy f)"
  shows "\<exists>rs. getAllTasks f s = (Inr rs, ensureInitialized s) \<and>
           mset rs = mset (filter (wanted f) (db s)) \<and>
           (\<not> present (sortBy f) \<longrightarrow> rs = filter (wanted f) (db s)) \<and>
           (sortBy f = Some ''createdAt'' \<longrightarrow> sorted (rev (map createdAt rs))) \<and>
           (sortBy f = Some ''title'' \<longrightarrow> sorted (map title rs)) \<and>
           (sortBy f = Some ''priority'' \<longrightarrow> sorted (map priority rs)) \<and>
           (sortBy f = Some ''status'' \<longrightarrow> sorted (map status rs))"
proof -
  obtain bs where bs: "bindConds
          ((if present (filters.status f) then [''status''] else [])
             @ (if present (filters.priority f) then [''priority''] else []))
          (filterValues f) = Some bs" "satisfies bs = wanted f"
    using bind_filters by blast
  define xs where "xs = filter (wanted f) (db s)"
  have run: "getAllTasks f s =
      (case orderRows (case sortBy f of
          None \<Rightarrow> None
        | Some c \<Rightarrow> if c = [] then None
                    else if c = ''createdAt'' then Some (c, DESC) else Some (c, ASC)) xs of
         None \<Rightarrow> (Inl Unsupported, ensureInitialized s)
       | Some r \<Rightarrow> (Inr r, ensureInitialized s))"
    using parse_getAllTasksQuery [OF ok] getAllTasksQuery_params [of f] bs
    by (simp add: getAllTasks_def allQuery_def runSelect_def split_beta xs_def
        split: option.splits)
  consider "sortBy f = None" | "sortBy f = Some []" | "sortBy f = Some ''title''"
    | "sortBy f = Some ''priority''" | "sortBy f = Some ''status''"
    | "sortBy f = Some ''createdAt''"
    using ok by (auto simp: sortOk_def validSortFields_def)
  then show ?thesis
  proof cases
    case 1
    then show ?thesis unfolding run xs_def [symmetric] by (simp add: orderRows_def)
  next
    case 2
    then show ?thesis unfolding run xs_def [symmetric] by (simp add: orderRows_def)
  next
    case 3
    then show ?thesis unfolding run xs_def [symmetric] by (simp add: orderRows_def column_def)
  next
    case 4
    then show ?thesis unfolding run xs_def [symmetric] by (simp add: orderRows_def column_def)
  next
    case 5
    then show ?thesis unfolding run xs_def [symmetric] by (simp add: orderRows_def column_def)
  next
    case 6
    then show ?thesis unfolding run xs_def [symmetric]
      by (simp add: orderRows_def column_def rev_map [symmetric])
  qed
qed


section \<open>Listing: filters and order\<close>

text \<open>
  Claim C2. For every table and every sort parameter the validator lets through,
  \<open>getAllTasks\<close> returns without error, and the rows returned are, with their
  multiplicities, exactly the rows of the table that satisfy the filters present: with a
  status filter alone the rows whose status equals its value, with a priority filter
  alone the rows whose priority equals its value, with both the rows that satisfy both.
  When no row qualifies the result is the empty list.
\<close>

theorem getAllTasks_filters_exactly:
  assumes ok: "sortOk (sortBy f)"
  shows "\<exists>rs. getAllTasks f s = (Inr rs, ensureInitialized s) \<and>
           mset rs = mset (filter (wanted f) (db s)) \<and>
           (\<forall>v. filters.status f = Some v \<and> v \<noteq> [] \<and> \<not> present (filters.priority f) \<longrightarrow>
                mset rs = mset (filter (\<lambda>t. status t = v) (db s))) \<and>
           (\<forall>p. filters.priority f = Some p \<and> p \<noteq> [] \<and> \<not> present (filters.status f) \<longrightarrow>
                mset rs = mset (filter (\<lambda>t. priority t = p) (db s))) \<and>
           (\<forall>v p. filters.status f = Some v \<and> v \<noteq> [] \<and> filters.priority f = Some p \<and> p \<noteq> [] \<longrightarrow>
                mset rs = mset (filter (\<lambda>t. status t = v \<and> priority t = p) (db s))) \<and>
           ((\<forall>t \<in> set (db s). \<not> wanted f t) \<longrightarrow> rs = [])"
proof -
  obtain rs where run: "getAllTasks f s = (Inr rs, ensureInitialized s)"
    and rows: "mset rs = mset (filter (wanted f) (db s))"
    using getAllTasks_result [OF ok] by blast
  have st: "mset rs = mset (filter (\<lambda>t. status t = v) (db s))"
    if "filters.status f = Some v \<and> v \<noteq> [] \<and> \<not> present (filters.priority f)" for v
  proof -
    have "wanted f = (\<lambda>t. status t = v)"
      using that by (auto simp: wanted_def fun_eq_iff)
    with rows show ?thesis by simp
  qed
  have pr: "mset rs = mset (filter (\<lambda>t. priority t = p) (db s))"
    if "filters.priority f = Some p \<and> p \<noteq> [] \<and> \<not> present (filters.status f)" for p
  proof -
    have "wanted f = (\<lambda>t. priority t = p)"
      using that by (auto simp: wanted_def fun_eq_iff)
    with rows show ?thesis by simp
  qed
  have both: "mset rs = mset (filter (\<lambda>t. status t = v \<and> priority t = p) (db s))"
    if "filters.status f = Some v \<and> v \<noteq> [] \<and> filters.priority f = Some p \<and> p \<noteq> []" for v p
  proof -
    have "wanted f = (\<lambda>t. status t = v \<and> priority t = p)"
      using that by (auto simp: wanted_def fun_eq_iff)
    with rows show ?thesis by simp
  qed
  have none: "rs = []" if "\<forall>t \<in> set (db s). \<not> wanted f t"
  proof -
    have "filter (wanted f) (db s) = []"
      using that by (simp add: filter_empty_conv)
    with rows show ?thesis by simp
  qed
  show ?thesis
    using run rows st pr both none by blast
qed

theorem getAllTasks_filters_exactly_witness:
  "getAllTasks \<lparr>filters.status = Some ''completed'', priority = Some ''high'', sortBy = Some ''title''\<rparr>
     exampleStorage =
   (Inr [\<lparr>id' = ''task_2_b'', title = ''Walk'', description = ''dog'', priority = ''high'',
          status = ''completed'', createdAt = ''2023-11-15T08:00:00.000Z''\<rparr>],
    exampleStorage)"
  using getAllTasks_filters_exactly
    [of "\<lparr>filters.status = Some ''completed'', priority = Some ''high'', sortBy = Some ''title''\<rparr>"
        exampleStorage]
  by (auto simp: sortOk_def validSortFields_def wanted_def ensureInitialized_def
      exampleStorage_def)

text \<open>
  Claim C3. For every table and all filters, \<open>getAllTasks\<close> with \<open>sortBy\<close>
  \<open>createdAt\<close> returns the rows the filters ask for, each as often as the table holds
  it, with their creation times non-increasing (newest first), and with \<open>sortBy\<close>
  \<open>title\<close>, \<open>priority\<close> or \<open>status\<close> returns those rows with that field non-decreasing
  in the lexicographic order of strings; the creation times are compared as the stored
  texts.
\<close>

theorem getAllTasks_sorted:
  "(sortBy f = Some ''createdAt'' \<longrightarrow>
      (\<exists>rs. getAllTasks f s = (Inr rs, ensureInitialized s) \<and>
            mset rs = mset (filter (wanted f) (db s)) \<and>
            sorted_wrt (\<lambda>a b. createdAt b \<le> createdAt a) rs)) \<and>
   (sortBy f = Some ''title'' \<longrightarrow>
      (\<exists>rs. getAllTasks f s = (Inr rs, ensureInitialized s) \<and>
            mset rs = mset (filter (wanted f) (db s)) \<and>
            sorted_wrt (\<lambda>a b. title a \<le> title b) rs)) \<and>
   (sortBy f = Some ''priority'' \<longrightarrow>
      (\<exists>rs. getAllTasks f s = (Inr rs, ensureInitialized s) \<and>
            mset rs = mset (filter (wanted f) (db s)) \<and>
            sorted_wrt (\<lambda>a b. priority a \<le> priority b) rs)) \<and>
   (sortBy f = Some ''status'' \<longrightarrow>
      (\<exists>rs. getAllTasks f s = (Inr rs, ensureInitialized s) \<and>
            mset rs = mset (filter (wanted f) (db s)) \<and>
            sorted_wrt (\<lambda>a b. status a \<le> status b) rs))"
proof -
  have ok: "sortOk (sortBy f)" if "sortBy f = Some c" "c \<in> set validSortFields" for c
    using that by (auto simp: sortOk_def)
  have desc: "sorted_wrt (\<lambda>a b. createdAt b \<le> createdAt a) rs"
    if "sorted (rev (map createdAt rs))" for rs :: "task list"
    using that by (simp add: rev_map [symmetric] sorted_wrt_rev sorted_wrt_map)
  show ?thesis
  proof (intro conjI impI)
    assume c: "sortBy f = Some ''createdAt''"
    from getAllTasks_result [OF ok [OF c]] c desc
    show "\<exists>rs. getAllTasks f s = (Inr rs, ensureInitialized s) \<and>
            mset rs = mset (filter (wanted f) (db s)) \<and>
            sorted_wrt (\<lambda>a b. createdAt b \<le> createdAt a) rs"
      by (auto simp: validSortFields_def)
  next
    assume c: "sortBy f = Some ''title''"
    from getAllTasks_result [OF ok [OF c]] c
    show "\<exists>rs. getAllTasks f s = (Inr rs, ensureInitialized s) \<and>
            mset rs = mset (filter (wanted f) (db s)) \<and>
            sorted_wrt (\<lambda>a b. title a \<le> title b) rs"
      by (auto simp: validSortFields_def sorted_map)
  next
    assume c: "sortBy f = Some ''priority''"
    from getAllTasks_result [OF ok [OF c]] c
    show "\<exists>rs. getAllTasks f s = (Inr rs, ensureInitialized s) \<and>
            mset rs = mset (filter (wanted f) (db s)) \<and>
            sorted_wrt (\<lambda>a b. priority a \<le> priority b) rs"
      by (auto simp: validSortFields_def sorted_map)
  next
    assume c: "sortBy f = Some ''status''"
    from getAllTasks_result [OF ok [OF c]] c
    show "\<exists>rs. getAllTasks f s = (Inr rs, ensureInitialized s) \<and>
            mset rs = mset (filter (wanted f) (db s)) \<and>
            sorted_wrt (\<lambda>a b. status a \<le> status b) rs"
      by (auto simp: validSortFields_def sorted_map)
  qed
qed

theorem getAllTasks_sorted_witness:
  "(\<exists>rs. getAllTasks \<lparr>filters.status = None, priority = None, sortBy = Some ''createdAt''\<rparr>
           exampleStorage = (Inr rs, exampleStorage) \<and>
         mset rs = mset (db exampleStorage) \<and>
         sorted_wrt (\<lambda>a b. createdAt b \<le> createdAt a) rs) \<and>
   (\<exists>rs. getAllTasks \<lparr>filters.status = None, priority = None, sortBy = Some ''title''\<rparr>
           exampleStorage = (Inr rs, exampleStorage) \<and>
         mset rs = mset (db exampleStorage) \<and>
         sorted_wrt (\<lambda>a b. title a \<le> title b) rs) \<and>
   (\<exists>rs. getAllTasks \<lparr>filters.status = None, priority = None, sortBy = Some ''priority''\<rparr>
           exampleStorage = (Inr rs, exampleStorage) \<and>
         mset rs = mset (db exampleStorage) \<and>
         sorted_wrt (\<lambda>a b. priority a \<le> priority b) rs) \<and>
   (\<exists>rs. getAllTasks \<lparr>filters.status = None, priority = None, sortBy = Some ''status''\<rparr>
           exampleStorage = (Inr rs, exampleStorage) \<and>
         mset rs = mset (db exampleStorage) \<and>
         sorted_wrt (\<lambda>a b. status a \<le> status b) rs)"
  using
    getAllTasks_sorted
      [of "\<lparr>filters.status = None, priority = None, sortBy = Some ''createdAt''\<rparr>" exampleStorage]
    getAllTasks_sorted
      [of "\<lparr>filters.status = None, priority = None, sortBy = Some ''title''\<rparr>" exampleStorage]
    getAllTasks_sorted
      [of "\<lparr>filters.status = None, priority = None, sortBy = Some ''priority''\<rparr>" exampleStorage]
    getAllTasks_sorted
      [of "\<lparr>filters.status = None, priority = None, sortBy = Some ''status''\<rparr>" exampleStorage]
  by (simp add: ensureInitialized_def exampleStorage_def wanted_def)

section \<open>Query parameters and the list route\<close>

lemma validated_param:
  assumes "\<not> (truthy v \<and> \<not> array_includes xs v)"
  shows "\<exists>r. filterField v = Some r \<and> (case r of None \<Rightarrow> \<not> truthy v | Some x \<Rightarrow> v = JStr x \<and> x \<in> set xs \<and> x \<noteq> [])"
  using assms by (cases v) (auto simp: filterField_def)

lemma decodeFilters_total:
  assumes "validateQueryParams query = Next q"
  shows "\<exists>f. decodeFilters q = Some f \<and> sortOk (sortBy f) \<and>
           (case filters.status f of None \<Rightarrow> True | Some x \<Rightarrow> x \<in> set VALID_STATUSES) \<and>
           (case filters.priority f of None \<Rightarrow> True | Some x \<Rightarrow> x \<in> set VALID_PRIORITIES)"
proof -
  have q: "q = query" and e: "queryErrors query = []"
    using assms by (auto simp: validateQueryParams_def Let_def split: if_splits)
  have a: "\<not> (truthy (query ''status'') \<and> \<not> array_includes VALID_STATUSES (query ''status''))"
    and b: "\<not> (truthy (query ''priority'') \<and> \<not> array_includes VALID_PRIORITIES (query ''priority''))"
    and c: "\<not> (truthy (query ''sortBy'') \<and> \<not> array_includes validSortFields (query ''sortBy''))"
    using e by (auto simp: queryErrors_def Let_def split: if_splits)
  from validated_param [OF a] validated_param [OF b] validated_param [OF c]
  show ?thesis
    unfolding q decodeFilters_def sortOk_def
    by (auto split: option.splits)
qed

lemma filterField_empty: "filterField (JStr []) = Some None" "filterField JUndefined = Some None"
  by (simp_all add: filterField_def)

text \<open>
  Claim C10. For every list request whose \<open>status\<close> or \<open>priority\<close> parameter is the
  empty string, the validator reports the same errors as for the request without that
  parameter (none for the empty string itself, so validation passes whenever the other
  parameters are valid), the controller builds the same filter object, in which that
  filter is absent, and the route gives the same answer and the same storage as for the
  request without the parameter.
\<close>

theorem empty_string_filter_is_no_filter:
  "(k = ''status'' \<or> k = ''priority'') \<longrightarrow>
     queryErrors (query(k := JStr [])) = queryErrors (query(k := JUndefined)) \<and>
     (queryErrors (query(k := JUndefined)) = [] \<longrightarrow>
        validateQueryParams (query(k := JStr [])) = Next (query(k := JStr []))) \<and>
     decodeFilters (query(k := JStr [])) = decodeFilters (query(k := JUndefined)) \<and>
     (\<forall>f. decodeFilters (query(k := JStr [])) = Some f \<longrightarrow>
          (if k = ''status'' then filters.status f else filters.priority f) = None) \<and>
     listRoute (query(k := JStr [])) s = listRoute (query(k := JUndefined)) s"
proof (intro impI)
  assume k: "k = ''status'' \<or> k = ''priority''"
  have errs: "queryErrors (query(k := JStr [])) = queryErrors (query(k := JUndefined))"
    using k by (elim disjE) (simp_all add: queryErrors_def)
  have dec: "decodeFilters (query(k := JStr [])) = decodeFilters (query(k := JUndefined))"
    using k by (elim disjE) (simp_all add: decodeFilters_def filterField_empty)
  have dropped: "(if k = ''status'' then filters.status f else filters.priority f) = None"
    if "decodeFilters (query(k := JStr [])) = Some f" for f
    using k that
    by (elim disjE) (auto simp: decodeFilters_def filterField_empty split: option.splits)
  have pass: "validateQueryParams (query(k := JStr [])) = Next (query(k := JStr []))"
    if "queryErrors (query(k := JUndefined)) = []"
    using that errs by (simp add: validateQueryParams_def)
  have ctl: "controller_getAllTasks (query(k := JStr [])) s =
             controller_getAllTasks (query(k := JUndefined)) s"
    unfolding controller_getAllTasks_def dec ..
  have "listRoute (query(k := JStr [])) s = listRoute (query(k := JUndefined)) s"
  proof (cases "queryErrors (query(k := JUndefined)) = []")
    case True
    then show ?thesis
      using errs ctl by (simp add: listRoute_def validateQueryParams_def)
  next
    case False
    then show ?thesis
      using errs by (simp add: listRoute_def validateQueryParams_def)
  qed
  with errs dec pass dropped
  show "queryErrors (query(k := JStr [])) = queryErrors (query(k := JUndefined)) \<and>
     (queryErrors (query(k := JUndefined)) = [] \<longrightarrow>
        validateQueryParams (query(k := JStr [])) = Next (query(k := JStr []))) \<and>
     decodeFilters (query(k := JStr [])) = decodeFilters (query(k := JUndefined)) \<and>
     (\<forall>f. decodeFilters (query(k := JStr [])) = Some f \<longrightarrow>
          (if k = ''status'' then filters.status f else filters.priority f) = None) \<and>
     listRoute (query(k := JStr [])) s = listRoute (query(k := JUndefined)) s"
    by blast
qed

theorem empty_string_filter_is_no_filter_witness:
  "validateQueryParams (emptyObj(''priority'' := JStr ''high'', ''status'' := JStr [])) =
     Next (emptyObj(''priority'' := JStr ''high'', ''status'' := JStr [])) \<and>
   decodeFilters (emptyObj(''priority'' := JStr ''high'', ''status'' := JStr [])) =
     Some \<lparr>filters.status = None, priority = Some ''high'', sortBy = None\<rparr> \<and>
   listRoute (emptyObj(''priority'' := JStr ''high'', ''status'' := JStr [])) exampleStorage =
     listRoute (emptyObj(''priority'' := JStr ''high'', ''status'' := JUndefined)) exampleStorage"
  using empty_string_filter_is_no_filter
    [of "''status''" "emptyObj(''priority'' := JStr ''high'')" exampleStorage]
  by (simp add: queryErrors_def emptyObj_def VALID_PRIORITIES_def decodeFilters_def
      filterField_def)

section \<open>Statement texts\<close>

lemma buildWhereClause_template:
  "fst (buildWhereClause g) \<in> set whereTemplates \<and> snd (buildWhereClause g) = filterValues g"
  by (cases "filters.status g"; cases "filters.priority g")
     (simp_all add: buildWhereClause_def whereTemplates_def filterValues_def)

lemma buildOrderByClause_template:
  assumes "sortOk sb"
  shows "buildOrderByClause sb \<in> set orderTemplates"
proof -
  consider "sb = None" | "sb = Some []" | "sb = Some ''title''" | "sb = Some ''priority''"
    | "sb = Some ''status''" | "sb = Some ''createdAt''"
    using assms by (auto simp: sortOk_def validSortFields_def)
  then show ?thesis
    by cases (simp_all add: buildOrderByClause_def orderTemplates_def allowList_def)
qed

lemma selectTemplates_member:
  "w \<in> set whereTemplates \<Longrightarrow> ob \<in> set orderTemplates \<Longrightarrow>
   ''SELECT * FROM tasks '' @ w @ '' '' @ ob \<in> set selectTemplates"
  unfolding selectTemplates_def by auto

lemma getAllTasksQuery_text:
  "fst (getAllTasksQuery g) =
     ''SELECT * FROM tasks '' @ fst (buildWhereClause g) @ '' '' @ buildOrderByClause (sortBy g)"
  by (simp add: getAllTasksQuery_def split_beta Let_def)

lemma getAllTasksQuery_template:
  assumes "sortOk (sortBy g)"
  shows "fst (getAllTasksQuery g) \<in> set selectTemplates"
  unfolding getAllTasksQuery_text
  using buildWhereClause_template [of g] buildOrderByClause_template [OF assms]
  by (intro selectTemplates_member) simp_all

text \<open>
  Claim C8, as stated, fails: \<open>buildOrderByClause\<close> splices any non-empty \<open>sortBy\<close>
  string into the statement text, so the storage layer, given a string that is no column
  of the allow-list, builds a text outside the data-free templates.
\<close>

theorem storage_splices_any_sortBy:
  "fst (getAllTasksQuery
          \<lparr>filters.status = None, priority = None,
             sortBy = Some ''title; DROP TABLE tasks; --''\<rparr>) =
     ''SELECT * FROM tasks  ORDER BY title; DROP TABLE tasks; -- ASC'' \<and>
   fst (getAllTasksQuery
          \<lparr>filters.status = None, priority = None,
             sortBy = Some ''title; DROP TABLE tasks; --''\<rparr>) \<notin> set selectTemplates"
  by (simp add: getAllTasksQuery_def buildWhereClause_def buildOrderByClause_def
      selectTemplates_def whereTemplates_def orderTemplates_def allowList_def)

text \<open>
  Claim C8, amended. Filter values, the fields of a new task, the new status and the
  task id are passed as bound parameters in every statement the storage layer builds:
  the \<open>WHERE\<close> part of the list statement is one of four fixed texts whatever the
  filter values, and the other four statements are constant texts. The \<open>sortBy\<close>
  string is spliced into the list statement as given; for every query that
  \<open>validateQueryParams\<close> lets through, the filter object the controller builds yields a
  statement text among the data-free templates, whose only identifier after
  \<open>ORDER BY\<close> is a column of the allow-list \<open>title\<close>, \<open>priority\<close>, \<open>status\<close>,
  \<open>createdAt\<close>.
\<close>

theorem sql_text_fixed_after_validation:
  assumes valid: "validateQueryParams query = Next q"
  shows "(\<exists>f. decodeFilters q = Some f \<and>
              fst (getAllTasksQuery f) \<in> set selectTemplates \<and>
              snd (getAllTasksQuery f) = filterValues f) \<and>
         (\<exists>w \<in> set whereTemplates.
              fst (getAllTasksQuery g) =
                ''SELECT * FROM tasks '' @ w @ '' '' @ buildOrderByClause (sortBy g)) \<and>
         snd (getAllTasksQuery g) = filterValues g \<and>
         createTaskQuery t =
           (insertSql, [id' t, title t, description t, priority t, status t, createdAt t]) \<and>
         getTaskByIdQuery i = (selectByIdSql, [i]) \<and>
         updateTaskStatusQuery v i = (updateSql, [v, i]) \<and>
         deleteTaskQuery i = (deleteSql, [i])"
proof -
  obtain f where f: "decodeFilters q = Some f" "sortOk (sortBy f)"
    using decodeFilters_total [OF valid] by blast
  have a: "\<exists>f. decodeFilters q = Some f \<and>
              fst (getAllTasksQuery f) \<in> set selectTemplates \<and>
              snd (getAllTasksQuery f) = filterValues f"
    using f getAllTasksQuery_template [OF f(2)] getAllTasksQuery_params [of f] by blast
  have b: "\<exists>w \<in> set whereTemplates.
              fst (getAllTasksQuery g) =
                ''SELECT * FROM tasks '' @ w @ '' '' @ buildOrderByClause (sortBy g)"
    using buildWhereClause_template [of g] getAllTasksQuery_text [of g] by blast
  show ?thesis
    using a b getAllTasksQuery_params [of g]
    by (simp add: createTaskQuery_def getTaskByIdQuery_def updateTaskStatusQuery_def
        deleteTaskQuery_def)
qed

theorem sql_text_fixed_after_validation_witness:
  "\<exists>f. decodeFilters (emptyObj(''status'' := JStr ''completed'', ''sortBy'' := JStr ''title'')) = Some f \<and>
        fst (getAllTasksQuery f) \<in> set selectTemplates \<and>
        snd (getAllTasksQuery f) = filterValues f"
proof -
  have "validateQueryParams (emptyObj(''status'' := JStr ''completed'', ''sortBy'' := JStr ''title'')) =
          Next (emptyObj(''status'' := JStr ''completed'', ''sortBy'' := JStr ''title''))"
    by (simp add: validateQueryParams_def queryErrors_def emptyObj_def VALID_STATUSES_def
        validSortFields_def)
  from sql_text_fixed_after_validation [OF this] show ?thesis
    by blast
qed

section \<open>What create validation lets through\<close>

lemma length_trim_le: "length (trim s) \<le> length s"
proof -
  have "length (trim s) \<le> length (dropWhile isWhiteSpace s)"
    unfolding trim_def using length_dropWhile_le [of isWhiteSpace "rev (dropWhile isWhiteSpace s)"]
    by simp
  also have "\<dots> \<le> length s"
    by (rule length_dropWhile_le)
  finally show ?thesis .
qed

lemma length_sanitized_le:
  "length (filter (\<lambda>c. c \<noteq> CHR ''<'' \<and> c \<noteq> CHR ''>'') (trim s)) \<le> length (trim s)"
  by (rule length_filter_le)

lemma titleErrors_Nil:
  "titleErrors v = [] \<Longrightarrow> \<exists>t. v = JStr t \<and> trim t \<noteq> [] \<and> length (trim t) \<le> 200"
  by (cases v) (auto simp: titleErrors_def split: if_splits)

lemma descriptionErrors_Nil:
  "descriptionErrors v = [] \<Longrightarrow> v = JUndefined \<or> (\<exists>d. v = JStr d \<and> length d \<le> 1000)"
  by (cases v) (auto simp: descriptionErrors_def split: if_splits)

lemma priorityErrors_Nil:
  "priorityErrors v = [] \<Longrightarrow> v = JUndefined \<or> (\<exists>p. v = JStr p \<and> p \<in> set VALID_PRIORITIES)"
  by (cases v) (auto simp: priorityErrors_def split: if_splits)

lemma decodeTaskData_total:
  assumes "validateCreateTask body = Next b"
  shows "\<exists>d. decodeTaskData b = Some d \<and> validTaskData d"
proof -
  have e: "createTaskErrors body = []"
    and b: "b = (if truthy (body ''description'')
                 then (body(''title'' := sanitizeString (body ''title'')))
                        (''description'' := sanitizeString (body ''description''))
                 else body(''title'' := sanitizeString (body ''title'')))"
    using assms by (auto simp: validateCreateTask_def Let_def split: if_splits)
  from e obtain t where t: "body ''title'' = JStr t" "length (trim t) \<le> 200"
    using titleErrors_Nil [of "body ''title''"] by (auto simp: createTaskErrors_def)
  from e have d: "body ''description'' = JUndefined \<or>
      (\<exists>d. body ''description'' = JStr d \<and> length d \<le> 1000)"
    using descriptionErrors_Nil [of "body ''description''"] by (simp add: createTaskErrors_def)
  from e have p: "body ''priority'' = JUndefined \<or>
      (\<exists>p. body ''priority'' = JStr p \<and> p \<in> set VALID_PRIORITIES)"
    using priorityErrors_Nil [of "body ''priority''"] by (simp add: createTaskErrors_def)
  have lt: "length (filter (\<lambda>c. c \<noteq> CHR ''<'' \<and> c \<noteq> CHR ''>'') (trim t)) \<le> 200"
    using length_sanitized_le [of t] t(2) by linarith
  have ld: "length (filter (\<lambda>c. c \<noteq> CHR ''<'' \<and> c \<noteq> CHR ''>'') (trim x)) \<le> 1000"
    if "length x \<le> 1000" for x
    using length_sanitized_le [of x] length_trim_le [of x] that by linarith
  show ?thesis
    using t(1) d p lt ld
    by (auto simp: b decodeTaskData_def optionalText_def validTaskData_def)
qed

lemma createRoute_bounds:
  assumes "createRoute now rnd isoNow body s = (TaskReply c t m, s1)"
  shows "length (title t) \<le> 200 \<and> length (description t) \<le> 1000 \<and>
         priority t \<in> set [''low'', ''medium'', ''high''] \<and> status t = ''pending'' \<and>
         t \<in> set (db s1)"
proof -
  obtain b where b: "validateCreateTask body = Next b"
    using assms by (auto simp: createRoute_def split: middleware.splits)
  obtain d where d: "decodeTaskData b = Some d" "validTaskData d"
    using decodeTaskData_total [OF b] by blast
  have pr: "orElse (taskData.priority d) ''medium'' \<in> set [''low'', ''medium'', ''high'']"
    using d(2)
    by (cases "taskData.priority d") (auto simp: validTaskData_def VALID_PRIORITIES_def)
  have ds: "length (orElse (taskData.description d) []) \<le> 1000"
    using d(2) by (cases "taskData.description d") (auto simp: validTaskData_def)
  have "createTask now rnd isoNow d s = (Inr t, s1)"
    using assms b d(1)
    by (auto simp: createRoute_def controller_createTask_def split: sum.splits prod.splits)
  then show ?thesis
    using pr ds d(2)
    by (auto simp: createTask_eq Let_def validTaskData_def split: if_splits)
qed

text \<open>
  Claim C7 says that every task that has passed create validation and sanitization
  reaches storage with a non-empty title. The code validates the title before it
  sanitizes it: for the body \<open>{title: "<>"}\<close> the trimmed title has two characters and
  passes, sanitization then strips both, and the route stores and returns (status 201)
  a task whose title is the empty string, against the invariant of the specification.
  The other bounds of the claim hold (\<open>createRoute_bounds\<close>).
\<close>

theorem createRoute_stores_empty_title:
  "createRoute 1700000000000 ''0.4fzyo82mvyr'' ''2023-11-14T22:13:20.000Z''
     (emptyObj(''title'' := JStr ''<>'')) \<lparr>isInitialized = True, db = []\<rparr> =
   (TaskReply 201
      \<lparr>id' = ''task_1700000000000_4fzyo82mv'', title = [], description = [],
         priority = ''medium'', status = ''pending'',
         createdAt = ''2023-11-14T22:13:20.000Z''\<rparr>
      ''Task created successfully'',
    \<lparr>isInitialized = True,
       db = [\<lparr>id' = ''task_1700000000000_4fzyo82mv'', title = [], description = [],
               priority = ''medium'', status = ''pending'',
               createdAt = ''2023-11-14T22:13:20.000Z''\<rparr>]\<rparr>) \<and>
   \<not> taskInvariant
      \<lparr>id' = ''task_1700000000000_4fzyo82mv'', title = [], description = [],
         priority = ''medium'', status = ''pending'',
         createdAt = ''2023-11-14T22:13:20.000Z''\<rparr>"
proof -
  have v: "validateCreateTask (emptyObj(''title'' := JStr ''<>'')) =
             Next (emptyObj(''title'' := JStr []))"
    by (simp add: validateCreateTask_def createTaskErrors_def titleErrors_def
        descriptionErrors_def priorityErrors_def emptyObj_def trim_def isWhiteSpace_def)
  have d: "decodeTaskData (emptyObj(''title'' := JStr [])) =
             Some \<lparr>taskData.title = [], description = None, priority = None\<rparr>"
    by (simp add: decodeTaskData_def optionalText_def emptyObj_def)
  have g: "generateId 1700000000000 ''0.4fzyo82mvyr'' = ''task_1700000000000_4fzyo82mv''"
    by (simp add: generateId_def substr_def digits10.simps digitChar_def)
  show ?thesis
    by (simp add: createRoute_def v controller_createTask_def d createTask_eq g
        ensureInitialized_def Let_def taskInvariant_def)
qed

section \<open>Generated identifiers\<close>

lemma digitChar_cases:
  assumes "d < 10"
  shows "isDigit (digitChar d) \<and> of_char (digitChar d) = 48 + d"
proof -
  consider "d = 0" | "d = 1" | "d = 2" | "d = 3" | "d = 4" | "d = 5" | "d = 6" | "d = 7"
    | "d = 8" | "d = 9"
    using assms by atomize_elim arith
  then show ?thesis
    by cases (simp_all add: digitChar_def isDigit_def)
qed

lemma digits10_digits: "digits10 n \<noteq> [] \<and> list_all isDigit (digits10 n)"
proof (induction n rule: digits10.induct)
  case (1 n)
  show ?case
  proof (cases "n < 10")
    case True
    then show ?thesis
      using digitChar_cases [of n] by (simp add: digits10.simps [of n])
  next
    case False
    then show ?thesis
      using 1 digitChar_cases [of "n mod 10"] by (simp add: digits10.simps [of n])
  qed
qed

lemma digits10_value:
  "foldl (\<lambda>a c. 10 * a + (of_char c - 48)) 0 (digits10 n) = n"
proof (induction n rule: digits10.induct)
  case (1 n)
  show ?case
  proof (cases "n < 10")
    case True
    then show ?thesis
      using digitChar_cases [of n] by (simp add: digits10.simps [of n])
  next
    case False
    then show ?thesis
      using 1 digitChar_cases [of "n mod 10"] by (simp add: digits10.simps [of n])
  qed
qed

lemma digits10_inj: "digits10 n = digits10 m \<longleftrightarrow> n = m"
proof
  assume h: "digits10 n = digits10 m"
  have "n = foldl (\<lambda>a c. 10 * a + (of_char c - 48)) 0 (digits10 n)"
    by (simp only: digits10_value)
  also have "\<dots> = foldl (\<lambda>a c. 10 * a + (of_char c - 48)) 0 (digits10 m)"
    by (simp only: h)
  also have "\<dots> = m"
    by (rule digits10_value)
  finally show "n = m" .
next
  assume "n = m"
  then show "digits10 n = digits10 m" by simp
qed

lemma not_isDigit_underscore: "\<not> isDigit (CHR ''_'')"
  by (simp add: isDigit_def)

lemma split_at_underscore:
  assumes "list_all isDigit d1" "list_all isDigit d2" "d1 @ CHR ''_'' # s1 = d2 @ CHR ''_'' # s2"
  shows "d1 = d2 \<and> s1 = s2"
proof -
  have t: "takeWhile isDigit (d @ CHR ''_'' # s) = d" if "list_all isDigit d" for d s
    using that not_isDigit_underscore by (simp add: takeWhile_append2 list_all_iff)
  have "d1 = d2"
    using t [OF assms(1), of s1] t [OF assms(2), of s2] assms(3) by simp
  with assms(3) show ?thesis by simp
qed

lemma generateId_eq_iff:
  "generateId now rnd = generateId now' rnd' \<longleftrightarrow>
     now = now' \<and> substr 2 9 rnd = substr 2 9 rnd'"
proof
  assume "generateId now rnd = generateId now' rnd'"
  then have "digits10 now @ CHR ''_'' # substr 2 9 rnd = digits10 now' @ CHR ''_'' # substr 2 9 rnd'"
    by (simp add: generateId_def)
  from split_at_underscore [OF _ _ this] digits10_digits
  show "now = now' \<and> substr 2 9 rnd = substr 2 9 rnd'"
    by (simp add: digits10_inj)
next
  assume "now = now' \<and> substr 2 9 rnd = substr 2 9 rnd'"
  then show "generateId now rnd = generateId now' rnd'"
    by (simp add: generateId_def)
qed

lemma matchesIdPattern_generateId:
  "matchesIdPattern (generateId now rnd) \<longleftrightarrow>
     substr 2 9 rnd \<noteq> [] \<and> list_all isLowerAlnum (substr 2 9 rnd)"
proof -
  have tw: "takeWhile isDigit (digits10 now @ CHR ''_'' # s) = digits10 now" for s
    using digits10_digits [of now] not_isDigit_underscore
    by (simp add: takeWhile_append2 list_all_iff)
  have dw: "dropWhile isDigit (digits10 now @ CHR ''_'' # s) = CHR ''_'' # s" for s
    using digits10_digits [of now] not_isDigit_underscore
    by (simp add: dropWhile_append2 list_all_iff)
  show ?thesis
    using digits10_digits [of now]
    by (simp add: matchesIdPattern_def generateId_def tw dw Let_def)
qed


text \<open>
  Claim C9, as stated, fails. The suffix is what \<open>substr(2, 9)\<close> finds after the first
  two characters of the random value's base-36 text: one character for the random value
  one half (text \<open>0.i\<close>), none for the random value zero (text \<open>0\<close>), and then the id
  does not match the id pattern. Two creations in the same millisecond whose random
  texts agree on their first nine fractional digits get the same id.
\<close>

theorem generateId_suffix_not_always_nine:
  "generateId 1700000000000 ''0.i'' = ''task_1700000000000_i'' \<and>
   length (substr 2 9 ''0.i'') = 1 \<and>
   generateId 1700000000000 ''0'' = ''task_1700000000000_'' \<and>
   \<not> isValidId (JStr (generateId 1700000000000 ''0'')) \<and>
   generateId 1700000000000 ''0.4fzyo82mvyr'' = generateId 1700000000000 ''0.4fzyo82mvzz''"
proof -
  have d: "digits10 1700000000000 = ''1700000000000''"
    by (simp add: digits10.simps digitChar_def)
  show ?thesis
    by (simp add: generateId_def d substr_def isValidId_def matchesIdPattern_def isDigit_def)
qed

text \<open>
  Claim C9, amended. Every id the storage layer generates is \<open>task_\<close>, the decimal
  digits of the millisecond timestamp, an underscore, and a suffix: the first nine
  characters, or as many as there are, that follow the first two characters of the
  random value's base-36 text. The id passes \<open>isValidId\<close> exactly when the suffix is not
  empty and made of \<open>a-z0-9\<close>; so it does whenever that text is \<open>0.\<close> followed by at
  least one lower-case base-36 digit, and the suffix then has between one and nine
  characters. Two generated ids are equal exactly when their timestamps and their
  suffixes are: creations that differ in either get distinct ids.
\<close>

theorem generateId_shape:
  "generateId now rnd = ''task_'' @ digits10 now @ ''_'' @ take 9 (drop 2 rnd) \<and>
   digits10 now \<noteq> [] \<and> list_all isDigit (digits10 now) \<and>
   length (take 9 (drop 2 rnd)) \<le> 9 \<and>
   (isValidId (JStr (generateId now rnd)) \<longleftrightarrow>
      drop 2 rnd \<noteq> [] \<and> list_all isLowerAlnum (take 9 (drop 2 rnd))) \<and>
   (\<forall>ds. rnd = ''0.'' @ ds \<and> ds \<noteq> [] \<and> list_all isLowerAlnum ds \<longrightarrow>
      isValidId (JStr (generateId now rnd)) \<and>
      generateId now rnd = ''task_'' @ digits10 now @ ''_'' @ take 9 ds \<and>
      1 \<le> length (take 9 ds) \<and> length (take 9 ds) = min 9 (length ds)) \<and>
   (generateId now rnd = generateId now' rnd' \<longleftrightarrow>
      now = now' \<and> take 9 (drop 2 rnd) = take 9 (drop 2 rnd'))"
proof -
  have valid: "isValidId (JStr (generateId now r)) \<longleftrightarrow>
      drop 2 r \<noteq> [] \<and> list_all isLowerAlnum (take 9 (drop 2 r))" for r
    using matchesIdPattern_generateId [of now r]
    by (auto simp: isValidId_def substr_def generateId_def)
  have frac: "isValidId (JStr (generateId now rnd)) \<and>
      generateId now rnd = ''task_'' @ digits10 now @ ''_'' @ take 9 ds \<and>
      1 \<le> length (take 9 ds) \<and> length (take 9 ds) = min 9 (length ds)"
    if h: "rnd = ''0.'' @ ds \<and> ds \<noteq> [] \<and> list_all isLowerAlnum ds" for ds
  proof -
    have dr: "drop 2 rnd = ds"
      using h by simp
    have al: "list_all isLowerAlnum (take 9 ds)"
      using h by (auto simp: list_all_iff dest: in_set_takeD)
    have ne: "1 \<le> length (take 9 ds)"
      using h by (cases ds) simp_all
    show ?thesis
      using h al ne valid [of rnd] by (simp add: dr generateId_def substr_def min.commute)
  qed
  show ?thesis
    using digits10_digits [of now] valid [of rnd] frac generateId_eq_iff [of now rnd now' rnd']
    by (simp add: generateId_def substr_def)
qed

theorem generateId_shape_witness:
  "isValidId (JStr (generateId 1700000000000 ''0.4fzyo82mvyr'')) \<and>
   generateId 1700000000000 ''0.4fzyo82mvyr'' = ''task_1700000000000_4fzyo82mv'' \<and>
   generateId 1700000000000 ''0.4fzyo82mvyr'' \<noteq> generateId 1700000000001 ''0.4fzyo82mvyr''"
proof -
  note shape =
    generateId_shape [of 1700000000000 "''0.4fzyo82mvyr''" 1700000000001 "''0.4fzyo82mvyr''"]
  have valid: "isValidId (JStr (generateId 1700000000000 ''0.4fzyo82mvyr''))"
  proof -
    from shape have "isValidId (JStr (generateId 1700000000000 ''0.4fzyo82mvyr'')) \<longleftrightarrow>
        drop 2 ''0.4fzyo82mvyr'' \<noteq> [] \<and>
        list_all isLowerAlnum (take 9 (drop 2 ''0.4fzyo82mvyr''))"
      by blast
    then show ?thesis
      by (simp add: isLowerAlnum_def isDigit_def)
  qed
  have idText: "generateId 1700000000000 ''0.4fzyo82mvyr'' = ''task_1700000000000_4fzyo82mv''"
  proof -
    from shape have "generateId 1700000000000 ''0.4fzyo82mvyr'' =
        ''task_'' @ digits10 1700000000000 @ ''_'' @ take 9 (drop 2 ''0.4fzyo82mvyr'')"
      by blast
    then show ?thesis
      by (simp add: digits10.simps digitChar_def)
  qed
  have other: "generateId 1700000000000 ''0.4fzyo82mvyr'' \<noteq>
                generateId 1700000000001 ''0.4fzyo82mvyr''"
  proof -
    from shape have "generateId 1700000000000 ''0.4fzyo82mvyr'' =
          generateId 1700000000001 ''0.4fzyo82mvyr'' \<longleftrightarrow>
        (1700000000000 :: nat) = 1700000000001 \<and>
        take 9 (drop 2 ''0.4fzyo82mvyr'') = take 9 (drop 2 ''0.4fzyo82mvyr'')"
      by blast
    then show ?thesis
      by simp
  qed
  show ?thesis
    using valid idText other by blast
qed

end
